theory Spec2Isabelle
  imports Main
begin

text \<open>
  A shallow embedding of \<open>logpull-logs.py\<close>, the script that pulls Cloudflare Workers logs
  through Logpull, filters the records of the response and prints them.

  Every function of the script is a function here, under its own name: \<open>parse_duration\<close>,
  \<open>parse_iso\<close>, \<open>format_time\<close>, \<open>read_env\<close>, \<open>get_value\<close>, \<open>parse_records\<close> and \<open>main\<close>.
  What the script calls in the standard library and the properties below depend on is
  written out as well: \<open>str.strip\<close>, \<open>str.splitlines\<close>, the substring test, \<open>json.loads\<close>,
  \<open>json.dumps\<close> and \<open>str\<close>. The rest of the library and the world outside are the fields of
  a \<open>runtime\<close>: the environment, the clock, the network, timestamp parsing and formatting,
  URL encoding, two tables of the Unicode database and the rounding of decimal numerals
  to floats. An exception is a value: a function that can raise returns \<open>error + 'a\<close>, and
  \<open>main\<close> yields what it printed, the requests it sent, and its return value or the
  exception that left it.
\<close>

section \<open>Python text\<close>

text \<open>
  A Python \<open>str\<close> is a sequence of Unicode code points. The response body and the values
  decoded from \<open>\uXXXX\<close> escapes range over all of Unicode, so a string of the model is a
  list of code points (natural numbers); \<open>ustr\<close> embeds an 8-bit literal.
\<close>

type_synonym ustring = "nat list"

definition ustr :: "string \<Rightarrow> ustring" where
  "ustr s = map of_char s"

text \<open>\<open>str.isspace\<close> on one code point: the characters \<open>str.strip()\<close> removes.\<close>

definition isspace :: "nat \<Rightarrow> bool" where
  "isspace c \<longleftrightarrow>
     (0x09 \<le> c \<and> c \<le> 0x0D) \<or> (0x1C \<le> c \<and> c \<le> 0x20) \<or> c = 0x85 \<or> c = 0xA0 \<or>
     c = 0x1680 \<or> (0x2000 \<le> c \<and> c \<le> 0x200A) \<or> c = 0x2028 \<or> c = 0x2029 \<or>
     c = 0x202F \<or> c = 0x205F \<or> c = 0x3000"

definition strip :: "ustring \<Rightarrow> ustring" where
  "strip s = rev (dropWhile isspace (rev (dropWhile isspace s)))"

text \<open>
  \<open>str.splitlines()\<close> breaks a string at every line boundary Python knows, not only at
  \<open>\n\<close>: also \<open>\r\<close>, \<open>\r\n\<close>, \<open>\v\<close>, \<open>\f\<close>, the separators \<open>\x1c\<close>, \<open>\x1d\<close>, \<open>\x1e\<close>,
  NEL \<open>\x85\<close>, and the Unicode line and paragraph separators U+2028 and U+2029.
  The breaks are dropped, and a final break opens no further line.
\<close>

definition is_linebreak :: "nat \<Rightarrow> bool" where
  "is_linebreak c \<longleftrightarrow>
     c = 0x0A \<or> c = 0x0B \<or> c = 0x0C \<or> c = 0x0D \<or> c = 0x1C \<or> c = 0x1D \<or> c = 0x1E \<or>
     c = 0x85 \<or> c = 0x2028 \<or> c = 0x2029"

fun splitlines_from :: "ustring \<Rightarrow> ustring \<Rightarrow> ustring list" where
  "splitlines_from line [] = (if line = [] then [] else [line])"
| "splitlines_from line [c] =
     (if is_linebreak c then [line] else [line @ [c]])"
| "splitlines_from line (c # d # cs) =
     (if c = 0x0D \<and> d = 0x0A then line # splitlines_from [] cs
      else if is_linebreak c then line # splitlines_from [] (d # cs)
      else splitlines_from (line @ [c]) (d # cs))"

definition splitlines :: "ustring \<Rightarrow> ustring list" where
  "splitlines s = splitlines_from [] s"

text \<open>\<open>needle in haystack\<close> on strings: a contiguous, code point by code point match.\<close>

fun startswith :: "ustring \<Rightarrow> ustring \<Rightarrow> bool" where
  "startswith s [] = True"
| "startswith [] (p # ps) = False"
| "startswith (c # cs) (p # ps) = (c = p \<and> startswith cs ps)"

fun str_contains :: "ustring \<Rightarrow> ustring \<Rightarrow> bool" where
  "str_contains needle [] = (needle = [])"
| "str_contains needle (c # cs) = (startswith (c # cs) needle \<or> str_contains needle cs)"

text \<open>\<open>sep.join(parts)\<close>.\<close>

fun join :: "ustring \<Rightarrow> ustring list \<Rightarrow> ustring" where
  "join sep [] = []"
| "join sep [p] = p"
| "join sep (p # q # ps) = p @ sep @ join sep (q # ps)"

text \<open>Decimal and hexadecimal numerals, as \<open>str(int)\<close> and the \<open>%04x\<close> formats write them.\<close>

fun str_nat :: "nat \<Rightarrow> ustring" where
  "str_nat n = (if n < 10 then [0x30 + n] else str_nat (n div 10) @ [0x30 + n mod 10])"

definition str_int :: "int \<Rightarrow> ustring" where
  "str_int i = (if i < 0 then 0x2D # str_nat (nat (- i)) else str_nat (nat i))"

definition hexdigit :: "nat \<Rightarrow> nat" where
  "hexdigit d = (if d < 10 then 0x30 + d else 0x61 + (d - 10))"

fun hex_fixed :: "nat \<Rightarrow> nat \<Rightarrow> ustring" where
  "hex_fixed 0 n = []"
| "hex_fixed (Suc w) n = hex_fixed w (n div 16) @ [hexdigit (n mod 16)]"

section \<open>JSON values\<close>

text \<open>
  What \<open>json.loads\<close> returns: \<open>None\<close>, \<open>bool\<close>, \<open>int\<close>, \<open>float\<close>, \<open>str\<close>, \<open>list\<close> and
  \<open>dict\<close>. A dict keeps its keys in insertion order and holds each key once, so it is an
  association list that \<open>dict_set\<close> keeps free of duplicates. A float is carried as its
  \<open>repr\<close>, which names the double; the rounding of a decimal lexeme to that double is the
  \<open>parse_float\<close> hook of \<open>json.loads\<close> and a parameter of the model.
\<close>

datatype json =
    JNull
  | JBool bool
  | JInt int
  | JFloat ustring
  | JString ustring
  | JArray "json list"
  | JObject "(ustring \<times> json) list"

type_synonym pydict = "(ustring \<times> json) list"

fun dict_set :: "pydict \<Rightarrow> ustring \<Rightarrow> json \<Rightarrow> pydict" where
  "dict_set [] k v = [(k, v)]"
| "dict_set ((k', v') # d) k v =
     (if k' = k then (k, v) # d else (k', v') # dict_set d k v)"

fun is_dict :: "json \<Rightarrow> bool" where
  "is_dict (JObject d) = True"
| "is_dict v = False"

fun is_list :: "json \<Rightarrow> bool" where
  "is_list (JArray xs) = True"
| "is_list v = False"

section \<open>\<open>json.loads\<close>\<close>

text \<open>
  The decoder of the standard library, on the rest of the input instead of an index.
  \<open>None\<close> is \<open>JSONDecodeError\<close>. Limits of the interpreter (recursion depth, the
  digit limit of \<open>int\<close>) are outside the model.
\<close>

definition json_ws :: "nat \<Rightarrow> bool" where
  "json_ws c \<longleftrightarrow> c = 0x20 \<or> c = 0x09 \<or> c = 0x0A \<or> c = 0x0D"

definition skip_ws :: "ustring \<Rightarrow> ustring" where
  "skip_ws s = dropWhile json_ws s"

definition is_digit :: "nat \<Rightarrow> bool" where
  "is_digit c \<longleftrightarrow> 0x30 \<le> c \<and> c \<le> 0x39"

definition hexval :: "nat \<Rightarrow> nat option" where
  "hexval c =
     (if 0x30 \<le> c \<and> c \<le> 0x39 then Some (c - 0x30)
      else if 0x41 \<le> c \<and> c \<le> 0x46 then Some (c - 0x41 + 10)
      else if 0x61 \<le> c \<and> c \<le> 0x66 then Some (c - 0x61 + 10)
      else None)"

text \<open>The four hexadecimal digits of a \<open>\uXXXX\<close> escape.\<close>

definition decode_uXXXX :: "ustring \<Rightarrow> nat option" where
  "decode_uXXXX s =
     (case s of
        a # b # c # d # _ \<Rightarrow>
          (case (hexval a, hexval b, hexval c, hexval d) of
             (Some w, Some x, Some y, Some z) \<Rightarrow> Some (((w * 16 + x) * 16 + y) * 16 + z)
           | _ \<Rightarrow> None)
      | _ \<Rightarrow> None)"

text \<open>The \<open>BACKSLASH\<close> table of the decoder.\<close>

definition backslash :: "nat \<Rightarrow> nat option" where
  "backslash e =
     (if e = 0x22 then Some 0x22
      else if e = 0x5C then Some 0x5C
      else if e = 0x2F then Some 0x2F
      else if e = 0x62 then Some 0x08
      else if e = 0x66 then Some 0x0C
      else if e = 0x6E then Some 0x0A
      else if e = 0x72 then Some 0x0D
      else if e = 0x74 then Some 0x09
      else None)"

definition cons_char :: "nat \<Rightarrow> (ustring \<times> ustring) option \<Rightarrow> (ustring \<times> ustring) option" where
  "cons_char c r = (case r of None \<Rightarrow> None | Some (s, rest) \<Rightarrow> Some (c # s, rest))"

text \<open>
  \<open>scanstring\<close> in strict mode, from just behind the opening quote: the decoded string
  and the input behind the closing quote. A raw control character below \<open>0x20\<close>, an
  unknown escape and a missing closing quote are errors. A high surrogate escape directly
  followed by a low surrogate escape is one code point.
\<close>

fun scanstring :: "ustring \<Rightarrow> (ustring \<times> ustring) option" where
  "scanstring [] = None"
| "scanstring (c # cs) =
     (if c = 0x22 then Some ([], cs)
      else if c = 0x5C then
        (case cs of
           [] \<Rightarrow> None
         | esc # es \<Rightarrow>
             if esc = 0x75 then
               (case decode_uXXXX es of
                  None \<Rightarrow> None
                | Some uni \<Rightarrow>
                    if 0xD800 \<le> uni \<and> uni \<le> 0xDBFF \<and> take 2 (drop 4 es) = [0x5C, 0x75] then
                      (case decode_uXXXX (drop 6 es) of
                         None \<Rightarrow> None
                       | Some uni2 \<Rightarrow>
                           if 0xDC00 \<le> uni2 \<and> uni2 \<le> 0xDFFF then
                             cons_char (0x10000 + ((uni - 0xD800) * 1024 + (uni2 - 0xDC00)))
                               (scanstring (drop 10 es))
                           else cons_char uni (scanstring (drop 4 es)))
                    else cons_char uni (scanstring (drop 4 es)))
             else
               (case backslash esc of
                  None \<Rightarrow> None
                | Some ch \<Rightarrow> cons_char ch (scanstring es)))
      else if c < 0x20 then None
      else cons_char c (scanstring cs))"

text \<open>
  \<open>NUMBER_RE\<close>: \<open>(-?(?:0|[1-9][0-9]*))(\.[0-9]+)?([eE][-+]?[0-9]+)?\<close>, matched at the start
  of the input: the three groups and the rest.
\<close>

definition match_exp :: "ustring \<Rightarrow> ustring \<times> ustring" where
  "match_exp s =
     (case s of
        [] \<Rightarrow> ([], s)
      | e # r \<Rightarrow>
          if e = 0x65 \<or> e = 0x45 then
            (let (sg, r') =
                   (case r of
                      [] \<Rightarrow> ([], r)
                    | x # xs \<Rightarrow> if x = 0x2B \<or> x = 0x2D then ([x], xs) else ([], r))
             in case r' of
                  [] \<Rightarrow> ([], s)
                | y # _ \<Rightarrow>
                    if is_digit y then (e # sg @ takeWhile is_digit r', dropWhile is_digit r')
                    else ([], s))
          else ([], s))"

definition match_frac :: "ustring \<Rightarrow> ustring \<times> ustring" where
  "match_frac s =
     (case s of
        p # q # qs \<Rightarrow>
          if p = 0x2E \<and> is_digit q
          then (p # takeWhile is_digit (q # qs), dropWhile is_digit (q # qs))
          else ([], s)
      | _ \<Rightarrow> ([], s))"

definition match_number :: "ustring \<Rightarrow> (ustring \<times> ustring \<times> ustring \<times> ustring) option" where
  "match_number s =
     (let (sign, s1) =
            (case s of
               [] \<Rightarrow> ([], s)
             | c # cs \<Rightarrow> if c = 0x2D then ([c], cs) else ([], s))
      in case s1 of
           [] \<Rightarrow> None
         | d # ds \<Rightarrow>
             if \<not> is_digit d then None
             else
               let (integer, s2) =
                     (if d = 0x30 then ([d], ds)
                      else (d # takeWhile is_digit ds, dropWhile is_digit ds));
                   (frac, s3) = match_frac s2;
                   (exp, s4) = match_exp s3
               in Some (sign @ integer, frac, exp, s4))"

text \<open>\<open>int(integer)\<close> on a lexeme \<open>-?[0-9]+\<close>.\<close>

definition int_of_digits :: "ustring \<Rightarrow> nat" where
  "int_of_digits ds = foldl (\<lambda>a c. a * 10 + (c - 0x30)) 0 ds"

definition int_of_lexeme :: "ustring \<Rightarrow> int" where
  "int_of_lexeme s =
     (case s of
        [] \<Rightarrow> 0
      | c # cs \<Rightarrow> if c = 0x2D then - int (int_of_digits cs) else int (int_of_digits s))"

lemma cons_char_Some:
  "cons_char c r = Some (s, rest) \<longleftrightarrow> (\<exists>s'. r = Some (s', rest) \<and> s = c # s')"
  by (auto simp: cons_char_def split: option.splits)

lemma scanstring_length: "scanstring s = Some (k, r) \<Longrightarrow> length r < length s"
proof (induction s arbitrary: k rule: scanstring.induct)
  case 1
  then show ?case by simp
next
  case (2 c cs)
  show ?case
    using "2.prems" "2.IH"
    by (fastforce simp: cons_char_Some split: if_splits list.splits option.splits)
qed

lemma skip_ws_length: "length (skip_ws s) \<le> length s"
  unfolding skip_ws_def by (rule length_dropWhile_le)

lemma skip_ws_Cons_length:
  "skip_ws s = d # ds \<Longrightarrow> length ds < length s \<and> length (skip_ws ds) < length s"
  using skip_ws_length [of s] skip_ws_length [of ds] by simp

text \<open>
  \<open>scan_once\<close> reads one value, \<open>array_items\<close> is the loop of \<open>JSONArray\<close> and
  \<open>object_pairs\<close> the loop of \<open>JSONObject\<close> (entered behind the opening quote of a key).
  The loops go on where the value they have just read ended; the test
  \<open>length rest < length s\<close> records that reading a value moves forward, which is what
  makes the recursion end, and \<open>scan_once_consumes\<close> shows that the test never fails.
\<close>

function scan_once :: "(ustring \<Rightarrow> ustring) \<Rightarrow> ustring \<Rightarrow> (json \<times> ustring) option"
  and array_items :: "(ustring \<Rightarrow> ustring) \<Rightarrow> json list \<Rightarrow> ustring \<Rightarrow> (json \<times> ustring) option"
  and object_pairs :: "(ustring \<Rightarrow> ustring) \<Rightarrow> pydict \<Rightarrow> ustring \<Rightarrow> (json \<times> ustring) option"
where
  "scan_once pf [] = None"
| "scan_once pf (c # cs) =
     (if c = 0x22 then
        (case scanstring cs of
           None \<Rightarrow> None
         | Some (s, rest) \<Rightarrow> Some (JString s, rest))
      else if c = 0x7B then
        (case skip_ws cs of
           [] \<Rightarrow> None
         | d # ds \<Rightarrow>
             if d = 0x22 then object_pairs pf [] ds
             else if d = 0x7D then Some (JObject [], ds)
             else None)
      else if c = 0x5B then
        (case skip_ws cs of
           [] \<Rightarrow> None
         | d # ds \<Rightarrow>
             if d = 0x5D then Some (JArray [], ds)
             else array_items pf [] (d # ds))
      else if c = 0x6E \<and> take 4 (c # cs) = ustr ''null'' then Some (JNull, drop 3 cs)
      else if c = 0x74 \<and> take 4 (c # cs) = ustr ''true'' then Some (JBool True, drop 3 cs)
      else if c = 0x66 \<and> take 5 (c # cs) = ustr ''false'' then Some (JBool False, drop 4 cs)
      else
        (case match_number (c # cs) of
           Some (integer, frac, exp, rest) \<Rightarrow>
             if frac \<noteq> [] \<or> exp \<noteq> [] then Some (JFloat (pf (integer @ frac @ exp)), rest)
             else Some (JInt (int_of_lexeme integer), rest)
         | None \<Rightarrow>
             if c = 0x4E \<and> take 3 (c # cs) = ustr ''NaN''
               then Some (JFloat (ustr ''nan''), drop 2 cs)
             else if c = 0x49 \<and> take 8 (c # cs) = ustr ''Infinity''
               then Some (JFloat (ustr ''inf''), drop 7 cs)
             else if c = 0x2D \<and> take 9 (c # cs) = ustr ''-Infinity''
               then Some (JFloat (ustr ''-inf''), drop 8 cs)
             else None))"
| "array_items pf acc s =
     (case scan_once pf s of
        None \<Rightarrow> None
      | Some (v, rest) \<Rightarrow>
          if length rest < length s then
            (case skip_ws rest of
               [] \<Rightarrow> None
             | d # ds \<Rightarrow>
                 if d = 0x5D then Some (JArray (acc @ [v]), ds)
                 else if d = 0x2C then array_items pf (acc @ [v]) (skip_ws ds)
                 else None)
          else None)"
| "object_pairs pf acc s =
     (case scanstring s of
        None \<Rightarrow> None
      | Some (key, r1) \<Rightarrow>
          (case skip_ws r1 of
             [] \<Rightarrow> None
           | colon # r2 \<Rightarrow>
               if colon \<noteq> 0x3A then None
               else
                 (case scan_once pf (skip_ws r2) of
                    None \<Rightarrow> None
                  | Some (v, r3) \<Rightarrow>
                      if length r3 < length (skip_ws r2) then
                        (case skip_ws r3 of
                           [] \<Rightarrow> None
                         | d # r4 \<Rightarrow>
                             if d = 0x7D then Some (JObject (dict_set acc key v), r4)
                             else if d = 0x2C then
                               (case skip_ws r4 of
                                  [] \<Rightarrow> None
                                | q # r5 \<Rightarrow>
                                    if q = 0x22 then object_pairs pf (dict_set acc key v) r5
                                    else None)
                             else None)
                      else None)))"
  by pat_completeness auto
termination
  by (relation "measure (\<lambda>x. case x of
          Inl (pf, s) \<Rightarrow> 2 * length s
        | Inr (Inl (pf, acc, s)) \<Rightarrow> 2 * length s + 1
        | Inr (Inr (pf, acc, s)) \<Rightarrow> 2 * length s + 1)")
     (auto dest!: skip_ws_Cons_length scanstring_length)

declare scan_once.simps [simp del] array_items.simps [simp del] object_pairs.simps [simp del]

text \<open>
  \<open>JSONDecoder.decode\<close>: one value, white space around it, and nothing else
  (\<open>Extra data\<close> otherwise). A leading byte order mark U+FEFF, which \<open>json.loads\<close>
  refuses by name, is no white space and no start of a value, so it fails here as well.
\<close>

definition loads :: "(ustring \<Rightarrow> ustring) \<Rightarrow> ustring \<Rightarrow> json option" where
  "loads pf s =
     (case scan_once pf (skip_ws s) of
        None \<Rightarrow> None
      | Some (obj, rest) \<Rightarrow> if skip_ws rest = [] then Some obj else None)"

section \<open>\<open>json.dumps\<close> and \<open>str\<close>\<close>

text \<open>\<open>json.dumps(value, ensure_ascii=True)\<close> with the default separators.\<close>

definition escape_ascii :: "nat \<Rightarrow> ustring" where
  "escape_ascii c =
     (if c = 0x5C then [0x5C, 0x5C]
      else if c = 0x22 then [0x5C, 0x22]
      else if c = 0x08 then [0x5C, 0x62]
      else if c = 0x0C then [0x5C, 0x66]
      else if c = 0x0A then [0x5C, 0x6E]
      else if c = 0x0D then [0x5C, 0x72]
      else if c = 0x09 then [0x5C, 0x74]
      else if 0x20 \<le> c \<and> c \<le> 0x7E then [c]
      else if c < 0x10000 then [0x5C, 0x75] @ hex_fixed 4 c
      else
        [0x5C, 0x75] @ hex_fixed 4 (0xD800 + (c - 0x10000) div 1024 mod 1024) @
        [0x5C, 0x75] @ hex_fixed 4 (0xDC00 + (c - 0x10000) mod 1024))"

definition encode_basestring_ascii :: "ustring \<Rightarrow> ustring" where
  "encode_basestring_ascii s = [0x22] @ concat (map escape_ascii s) @ [0x22]"

definition floatstr :: "ustring \<Rightarrow> ustring" where
  "floatstr r =
     (if r = ustr ''nan'' then ustr ''NaN''
      else if r = ustr ''inf'' then ustr ''Infinity''
      else if r = ustr ''-inf'' then ustr ''-Infinity''
      else r)"

fun dumps :: "json \<Rightarrow> ustring" where
  "dumps JNull = ustr ''null''"
| "dumps (JBool b) = (if b then ustr ''true'' else ustr ''false'')"
| "dumps (JInt i) = str_int i"
| "dumps (JFloat r) = floatstr r"
| "dumps (JString s) = encode_basestring_ascii s"
| "dumps (JArray xs) = ustr ''['' @ join (ustr '', '') (map dumps xs) @ ustr '']''"
| "dumps (JObject d) =
     ustr ''{'' @
     join (ustr '', '')
       (map (\<lambda>kv. encode_basestring_ascii (fst kv) @ ustr '': '' @ dumps (snd kv)) d) @
     ustr ''}''"

text \<open>
  \<open>repr\<close> of a string: single quotes unless the string holds a single quote and no
  double quote; the quote and the backslash escaped; \<open>\t\<close>, \<open>\n\<close>, \<open>\r\<close> by name; every
  other code point that is not printable as \<open>\xhh\<close>, \<open>\uhhhh\<close> or \<open>\Uhhhhhhhh\<close>.
  Which code points beyond ASCII are printable is a table of the Unicode database
  (\<open>str.isprintable\<close>), the parameter \<open>pr\<close>.
\<close>

definition repr_char :: "(nat \<Rightarrow> bool) \<Rightarrow> nat \<Rightarrow> nat \<Rightarrow> ustring" where
  "repr_char pr quote c =
     (if c = quote \<or> c = 0x5C then [0x5C, c]
      else if c = 0x09 then [0x5C, 0x74]
      else if c = 0x0A then [0x5C, 0x6E]
      else if c = 0x0D then [0x5C, 0x72]
      else if c < 0x20 \<or> c = 0x7F then [0x5C, 0x78] @ hex_fixed 2 c
      else if c < 0x7F then [c]
      else if pr c then [c]
      else if c \<le> 0xFF then [0x5C, 0x78] @ hex_fixed 2 c
      else if c \<le> 0xFFFF then [0x5C, 0x75] @ hex_fixed 4 c
      else [0x5C, 0x55] @ hex_fixed 8 c)"

definition repr_str :: "(nat \<Rightarrow> bool) \<Rightarrow> ustring \<Rightarrow> ustring" where
  "repr_str pr s =
     (let quote = (if 0x27 \<in> set s \<and> 0x22 \<notin> set s then 0x22 else 0x27)
      in [quote] @ concat (map (repr_char pr quote) s) @ [quote])"

fun py_repr :: "(nat \<Rightarrow> bool) \<Rightarrow> json \<Rightarrow> ustring" where
  "py_repr pr JNull = ustr ''None''"
| "py_repr pr (JBool b) = (if b then ustr ''True'' else ustr ''False'')"
| "py_repr pr (JInt i) = str_int i"
| "py_repr pr (JFloat r) = r"
| "py_repr pr (JString s) = repr_str pr s"
| "py_repr pr (JArray xs) = ustr ''['' @ join (ustr '', '') (map (py_repr pr) xs) @ ustr '']''"
| "py_repr pr (JObject d) =
     ustr ''{'' @
     join (ustr '', '')
       (map (\<lambda>kv. repr_str pr (fst kv) @ ustr '': '' @ py_repr pr (snd kv)) d) @
     ustr ''}''"

text \<open>\<open>str(value)\<close>: a string is itself, everything else is its \<open>repr\<close>.\<close>

definition py_str :: "(nat \<Rightarrow> bool) \<Rightarrow> json \<Rightarrow> ustring" where
  "py_str pr v = (case v of JString s \<Rightarrow> s | _ \<Rightarrow> py_repr pr v)"

section \<open>The runtime\<close>

text \<open>
  What the script takes from outside: the process environment, the clock, the network,
  and the library tables and conversions that are not written out here.
  A \<open>datetime\<close> is an instant in UTC, counted in microseconds from
  \<open>datetime.min\<close> = 0001-01-01T00:00:00; a \<open>timedelta\<close> is a number of microseconds.
  The script runs behind \<open>parser.parse_args()\<close>, so \<open>args\<close> is the namespace
  argparse returns; its attributes \<open>end\<close> and \<open>fields\<close> are \<open>end_arg\<close> and \<open>fields_arg\<close> here.
\<close>

datatype error = ValueError | OverflowError | OtherException

type_synonym datetime = int
type_synonym timedelta = int

record request =
  url :: ustring
  headers :: "(ustring \<times> ustring) list"

text \<open>
  The ways \<open>urlopen(request, timeout=60)\<close> with \<open>response.read().decode("utf-8")\<close> ends:
  a body; \<open>HTTPError\<close> with its code, its reason and its body where that can be read and
  decoded; \<open>URLError\<close> with its reason; any other exception, which the script lets pass.
\<close>

datatype response =
    Body ustring
  | HTTPError nat ustring "ustring option"
  | URLError ustring
  | Raises error

text \<open>
  The fields of the runtime: \<open>os.getenv\<close>; \<open>datetime.now(timezone.utc)\<close>; the network;
  \<open>urllib.parse.urlencode\<close>; \<open>datetime.fromisoformat\<close>, giving the instant as written and
  the offset if one is written, \<open>None\<close> for \<open>ValueError\<close>;
  \<open>strftime("%Y-%m-%dT%H:%M:%SZ")\<close>; \<open>str(int(value.timestamp()))\<close>; the value of a
  decimal digit of Unicode, \<open>None\<close> for any other code point; \<open>str.isprintable\<close> on a code
  point; and \<open>repr(float(lexeme))\<close>. The sampling rate in \<open>args\<close> is a float and is kept as
  its \<open>str\<close>.
\<close>

record runtime =
  getenv :: "ustring \<Rightarrow> ustring option"
  utcnow :: datetime
  urlopen :: "request \<Rightarrow> response"
  urlencode :: "(ustring \<times> ustring) list \<Rightarrow> ustring"
  fromisoformat :: "ustring \<Rightarrow> (datetime \<times> timedelta option) option"
  strftime :: "datetime \<Rightarrow> ustring"
  timestamp :: "datetime \<Rightarrow> ustring"
  decimal :: "nat \<Rightarrow> nat option"
  isprintable :: "nat \<Rightarrow> bool"
  float_repr :: "ustring \<Rightarrow> ustring"

record args =
  since :: "ustring option"
  start :: "ustring option"
  end_arg :: "ustring option"
  ray :: "ustring option"
  worker :: "ustring option"
  status :: "ustring option"
  path :: "ustring option"
  contains :: "ustring option"
  fields_arg :: "ustring option"
  dataset :: "ustring option"
  endpoint :: "ustring option"
  limit :: "int option"
  sample :: "ustring option"
  raw :: bool

text \<open>
  What a run leaves behind: the arguments of the \<open>print\<close> calls on each stream (each is
  written followed by a newline), the requests sent, and how \<open>main\<close> ended: \<open>Inr n\<close> when
  it returned \<open>n\<close>, the exit status; \<open>Inl e\<close> when the exception \<open>e\<close> left it uncaught
  (the interpreter then writes a traceback and exits with status 1).
\<close>

record outcome =
  stdout :: "ustring list"
  stderr :: "ustring list"
  requests :: "request list"
  returns :: "error + int"

text \<open>
  Truth value of an \<open>Optional[str]\<close>: set and not empty. \<open>a or b\<close> on two of them, and
  \<open>a or "literal"\<close>.
\<close>

definition truthy :: "ustring option \<Rightarrow> bool" where
  "truthy v \<longleftrightarrow> (case v of None \<Rightarrow> False | Some s \<Rightarrow> s \<noteq> [])"

definition py_or :: "ustring option \<Rightarrow> ustring option \<Rightarrow> ustring option" where
  "py_or a b = (if truthy a then a else b)"

definition or_str :: "ustring option \<Rightarrow> ustring \<Rightarrow> ustring" where
  "or_str a b = (case a of None \<Rightarrow> b | Some s \<Rightarrow> if s \<noteq> [] then s else b)"

text \<open>An \<open>Optional[str]\<close> inside an f-string.\<close>

definition fstr :: "ustring option \<Rightarrow> ustring" where
  "fstr v = (case v of None \<Rightarrow> ustr ''None'' | Some s \<Rightarrow> s)"

section \<open>Time\<close>

text \<open>
  \<open>timedelta(seconds=n)\<close>: the days of a timedelta stay within 999999999 in magnitude,
  \<open>OverflowError\<close> otherwise.
\<close>

definition timedelta_seconds :: "int \<Rightarrow> error + timedelta" where
  "timedelta_seconds n =
     (if n div 86400 < - 999999999 \<or> 999999999 < n div 86400 then Inl OverflowError
      else Inr (n * 1000000))"

text \<open>\<open>datetime.max\<close> = 9999-12-31T23:59:59.999999, on day 3652059 of the calendar.\<close>

definition datetime_max :: datetime where
  "datetime_max = 3652059 * 86400 * 1000000 - 1"

text \<open>\<open>value - delta\<close>: \<open>OverflowError\<close> when the result is no \<open>datetime\<close>.\<close>

definition datetime_sub :: "datetime \<Rightarrow> timedelta \<Rightarrow> error + datetime" where
  "datetime_sub t delta =
     (if t - delta < 0 \<or> datetime_max < t - delta then Inl OverflowError else Inr (t - delta))"

text \<open>
  The pattern \<open>^(\d+)([smhd])$\<close> on a string without surrounding white space: the value of
  the digits and the unit. \<open>\d\<close> and \<open>int\<close> take every decimal digit of Unicode; \<open>dec\<close> is
  the table of their values, and \<open>decimal_value\<close> is the number a row of digits writes.
\<close>

definition decimal_value :: "nat list \<Rightarrow> nat" where
  "decimal_value ds = foldl (\<lambda>a d. a * 10 + d) 0 ds"

definition match_duration :: "(nat \<Rightarrow> nat option) \<Rightarrow> ustring \<Rightarrow> (nat \<times> nat) option" where
  "match_duration dec s =
     (if s = [] then None
      else
        (case those (map dec (butlast s)) of
           None \<Rightarrow> None
         | Some [] \<Rightarrow> None
         | Some (d # ds) \<Rightarrow>
             if last s = 0x73 \<or> last s = 0x6D \<or> last s = 0x68 \<or> last s = 0x64
             then Some (decimal_value (d # ds), last s)
             else None))"

definition parse_duration :: "runtime \<Rightarrow> ustring \<Rightarrow> error + timedelta" where
  "parse_duration rt value =
     (case match_duration (decimal rt) (strip value) of
        None \<Rightarrow> Inl ValueError
      | Some (amount, unit) \<Rightarrow>
          if unit = 0x73 then timedelta_seconds (int amount)
          else if unit = 0x6D then timedelta_seconds (int amount * 60)
          else if unit = 0x68 then timedelta_seconds (int amount * 3600)
          else timedelta_seconds (int amount * 86400))"

text \<open>The length of a unit in seconds, as the specification gives it.\<close>

definition unit_length :: "nat \<Rightarrow> int option" where
  "unit_length unit =
     (if unit = 0x73 then Some 1
      else if unit = 0x6D then Some 60
      else if unit = 0x68 then Some 3600
      else if unit = 0x64 then Some 86400
      else None)"

text \<open>
  \<open>datetime.fromisoformat\<close> is the runtime's: the instant as written and the offset, if one
  is written; \<open>None\<close> is \<open>ValueError\<close>.
\<close>

definition parse_iso :: "runtime \<Rightarrow> ustring \<Rightarrow> error + datetime" where
  "parse_iso rt value =
     (let cleaned = strip value;
          cleaned = (if cleaned \<noteq> [] \<and> last cleaned = 0x5A
                     then butlast cleaned @ ustr ''+00:00'' else cleaned)
      in case fromisoformat rt cleaned of
           None \<Rightarrow> Inl ValueError
         | Some (parsed, None) \<Rightarrow> Inr parsed
         | Some (parsed, Some offset) \<Rightarrow> datetime_sub parsed offset)"

definition format_time :: "runtime \<Rightarrow> datetime \<Rightarrow> ustring \<Rightarrow> ustring" where
  "format_time rt value mode =
     (if mode = ustr ''unix'' then timestamp rt value else strftime rt value)"

definition read_env :: "runtime \<Rightarrow> ustring \<Rightarrow> ustring option \<Rightarrow> ustring option" where
  "read_env rt name dflt =
     (case getenv rt name of None \<Rightarrow> dflt | Some value \<Rightarrow> Some value)"

section \<open>Records\<close>

fun get_value :: "runtime \<Rightarrow> pydict \<Rightarrow> ustring list \<Rightarrow> ustring option" where
  "get_value rt record [] = None"
| "get_value rt record (key # keys) =
     (case map_of record key of
        Some value \<Rightarrow> if value \<noteq> JNull then Some (py_str (isprintable rt) value) else None
      | None \<Rightarrow> get_value rt record keys)"

definition as_dict :: "json \<Rightarrow> pydict option" where
  "as_dict item = (case item of JObject d \<Rightarrow> Some d | _ \<Rightarrow> None)"

text \<open>The loop over the lines of the body, with the list \<open>records\<close> it appends to.\<close>

fun parse_lines :: "runtime \<Rightarrow> pydict list \<Rightarrow> ustring list \<Rightarrow> pydict list" where
  "parse_lines rt records [] = records"
| "parse_lines rt records (line # lines) =
     (if strip line = [] then parse_lines rt records lines
      else
        (case loads (float_repr rt) (strip line) of
           None \<Rightarrow> parse_lines rt records lines
         | Some (JObject parsed) \<Rightarrow> parse_lines rt (records @ [parsed]) lines
         | Some _ \<Rightarrow> parse_lines rt records lines))"

definition parse_records :: "runtime \<Rightarrow> ustring \<Rightarrow> pydict list" where
  "parse_records rt payload =
     (if strip payload = [] then []
      else
        (case loads (float_repr rt) payload of
           Some (JArray data) \<Rightarrow> List.map_filter as_dict data
         | Some (JObject data) \<Rightarrow> [data]
         | _ \<Rightarrow> parse_lines rt [] (splitlines payload)))"

section \<open>\<open>main\<close>\<close>

definition fail :: "ustring list \<Rightarrow> request list \<Rightarrow> error + int \<Rightarrow> outcome" where
  "fail messages sent r = \<lparr>stdout = [], stderr = messages, requests = sent, returns = r\<rparr>"

text \<open>
  Lines 112 to 131: the time window, or the way \<open>main\<close> ends without one. Only
  \<open>ValueError\<close> is caught; \<open>OverflowError\<close> leaves \<open>main\<close>. \<open>main_window_explicit\<close> is
  the \<open>else\<close> branch, taken when \<open>args.since\<close> is not set or empty.
\<close>

definition invalid_time :: outcome where
  "invalid_time =
     fail [ustr ''Invalid time format; use RFC3339 like 2026-01-27T12:00:00Z''] [] (Inr 1)"

definition main_window_explicit :: "runtime \<Rightarrow> args \<Rightarrow> outcome + datetime \<times> datetime" where
  "main_window_explicit rt args =
     (case (start args, end_arg args) of
        (Some from_value, Some to_value) \<Rightarrow>
          if from_value = [] \<or> to_value = [] then
            Inl (fail [ustr ''Provide --since or both --from/--to''] [] (Inr 1))
          else
            (case parse_iso rt from_value of
               Inl ValueError \<Rightarrow> Inl invalid_time
             | Inl exc \<Rightarrow> Inl (fail [] [] (Inl exc))
             | Inr start_time \<Rightarrow>
                 (case parse_iso rt to_value of
                    Inl ValueError \<Rightarrow> Inl invalid_time
                  | Inl exc \<Rightarrow> Inl (fail [] [] (Inl exc))
                  | Inr end_time \<Rightarrow> Inr (start_time, end_time)))
      | _ \<Rightarrow> Inl (fail [ustr ''Provide --since or both --from/--to''] [] (Inr 1)))"

definition main_window :: "runtime \<Rightarrow> args \<Rightarrow> outcome + datetime \<times> datetime" where
  "main_window rt args =
     (case since args of
        None \<Rightarrow> main_window_explicit rt args
      | Some value \<Rightarrow>
          if value = [] then main_window_explicit rt args
          else
            (let end_time = utcnow rt
             in case parse_duration rt value of
                  Inl ValueError \<Rightarrow>
                    Inl (fail [ustr ''Duration must be like 15m, 2h, 1d''] [] (Inr 1))
                | Inl exc \<Rightarrow> Inl (fail [] [] (Inl exc))
                | Inr delta \<Rightarrow>
                    (case datetime_sub end_time delta of
                       Inl exc \<Rightarrow> Inl (fail [] [] (Inl exc))
                     | Inr start_time \<Rightarrow> Inr (start_time, end_time))))"

text \<open>Lines 111 and 133 to 164: the request.\<close>

definition add_param ::
  "(ustring \<times> ustring) list \<Rightarrow> ustring \<Rightarrow> ustring option \<Rightarrow> (ustring \<times> ustring) list" where
  "add_param params name v =
     (case v of
        None \<Rightarrow> params
      | Some s \<Rightarrow> if s \<noteq> [] then params @ [(name, s)] else params)"

definition main_request :: "runtime \<Rightarrow> args \<Rightarrow> datetime \<Rightarrow> datetime \<Rightarrow> request" where
  "main_request rt args start_time end_time =
     (let account_id = read_env rt (ustr ''CLOUDFLARE_ACCOUNT_ID'') None;
          token = read_env rt (ustr ''CLOUDFLARE_API_TOKEN'') None;
          time_format =
            or_str (read_env rt (ustr ''CLOUDFLARE_LOGPULL_TIME_FORMAT'')
                      (Some (ustr ''rfc3339'')))
              (ustr ''rfc3339'');
          endpoint =
            or_str
              (py_or (endpoint args) (read_env rt (ustr ''CLOUDFLARE_LOGPULL_ENDPOINT'') None))
              (fstr (read_env rt (ustr ''CLOUDFLARE_LOGPULL_BASE_URL'')
                       (Some (ustr ''https://api.cloudflare.com/client/v4''))) @
               ustr ''/accounts/'' @ fstr account_id @ ustr ''/logs/received'');
          params =
            [(ustr ''start'', format_time rt start_time time_format),
             (ustr ''end'', format_time rt end_time time_format)];
          dataset =
            py_or (dataset args)
              (read_env rt (ustr ''CLOUDFLARE_LOGPULL_DATASET'')
                 (Some (ustr ''workers_trace_events'')));
          params = add_param params (ustr ''dataset'') dataset;
          fields = py_or (fields_arg args) (read_env rt (ustr ''CLOUDFLARE_LOGPULL_FIELDS'') None);
          params = add_param params (ustr ''fields'') fields;
          params =
            (case sample args of
               None \<Rightarrow> params
             | Some rate \<Rightarrow> params @ [(ustr ''sample'', rate)])
      in \<lparr>url = endpoint @ ustr ''?'' @ urlencode rt params,
          headers =
            [(ustr ''Authorization'', ustr ''Bearer '' @ fstr token),
             (ustr ''Accept'', ustr ''application/json'')]\<rparr>)"

text \<open>
  Lines 191 to 213: whether the loop body reaches \<open>continue\<close> for a record. A field
  filter that is set and not empty rejects the record when the field has no value, an
  empty one, or one without the filter in it.
\<close>

definition field_rejects :: "runtime \<Rightarrow> ustring option \<Rightarrow> ustring list \<Rightarrow> pydict \<Rightarrow> bool" where
  "field_rejects rt flt keys record =
     (case flt of
        None \<Rightarrow> False
      | Some wanted \<Rightarrow>
          wanted \<noteq> [] \<and>
          (case get_value rt record keys of
             None \<Rightarrow> True
           | Some value \<Rightarrow> value = [] \<or> \<not> str_contains wanted value))"

definition contains_rejects :: "ustring option \<Rightarrow> pydict \<Rightarrow> bool" where
  "contains_rejects flt record =
     (case flt of
        None \<Rightarrow> False
      | Some wanted \<Rightarrow> wanted \<noteq> [] \<and> \<not> str_contains wanted (dumps (JObject record)))"

definition rejects :: "runtime \<Rightarrow> args \<Rightarrow> pydict \<Rightarrow> bool" where
  "rejects rt args record \<longleftrightarrow>
     field_rejects rt (ray args) [ustr ''RayID'', ustr ''RayId'', ustr ''ray_id''] record \<or>
     field_rejects rt (worker args)
       [ustr ''ScriptName'', ustr ''WorkerName'', ustr ''worker'', ustr ''script_name''] record \<or>
     field_rejects rt (status args)
       [ustr ''Status'', ustr ''EdgeStatus'', ustr ''status'', ustr ''Outcome''] record \<or>
     field_rejects rt (path args)
       [ustr ''Path'', ustr ''RequestPath'', ustr ''RequestURL'', ustr ''URL'', ustr ''uri''] record \<or>
     contains_rejects (contains args) record"

text \<open>\<open>args.limit and output_count >= args.limit\<close>.\<close>

definition limit_reached :: "int option \<Rightarrow> int \<Rightarrow> bool" where
  "limit_reached lim output_count \<longleftrightarrow>
     (case lim of None \<Rightarrow> False | Some l \<Rightarrow> l \<noteq> 0 \<and> l \<le> output_count)"

text \<open>
  Lines 189 to 218: the loop over \<open>records\<close>, with what has been printed and
  \<open>output_count\<close>. It yields the printed lines and the records it has not taken from
  the list: none when it runs to the end, the rest of the list behind a \<open>break\<close>.
\<close>

fun main_loop ::
  "runtime \<Rightarrow> args \<Rightarrow> ustring list \<Rightarrow> int \<Rightarrow> pydict list \<Rightarrow> ustring list \<times> pydict list" where
  "main_loop rt args printed output_count [] = (printed, [])"
| "main_loop rt args printed output_count (record # records) =
     (if rejects rt args record then main_loop rt args printed output_count records
      else if limit_reached (limit args) (output_count + 1)
        then (printed @ [dumps (JObject record)], records)
      else main_loop rt args (printed @ [dumps (JObject record)]) (output_count + 1) records)"

definition main :: "runtime \<Rightarrow> args \<Rightarrow> outcome" where
  "main rt args =
     (let account_id = read_env rt (ustr ''CLOUDFLARE_ACCOUNT_ID'') None;
          token = read_env rt (ustr ''CLOUDFLARE_API_TOKEN'') None
      in if \<not> truthy account_id \<or> \<not> truthy token then
           fail [ustr ''Missing CLOUDFLARE_ACCOUNT_ID or CLOUDFLARE_API_TOKEN''] [] (Inr 1)
         else
           (case main_window rt args of
              Inl ended \<Rightarrow> ended
            | Inr (start_time, end_time) \<Rightarrow>
                (let request = main_request rt args start_time end_time
                 in case urlopen rt request of
                      HTTPError code reason body \<Rightarrow>
                        fail
                          ([ustr ''Logpull error: '' @ str_nat code @ ustr '' '' @ reason] @
                           (case body of None \<Rightarrow> [] | Some text \<Rightarrow> [text]))
                          [request] (Inr 1)
                    | URLError reason \<Rightarrow>
                        fail [ustr ''Logpull request failed: '' @ reason] [request] (Inr 1)
                    | Raises exc \<Rightarrow> fail [] [request] (Inl exc)
                    | Body payload \<Rightarrow>
                        if raw args then
                          \<lparr>stdout = [payload], stderr = [], requests = [request],
                           returns = Inr 0\<rparr>
                        else
                          (let records = parse_records rt payload
                           in if records = [] then
                                \<lparr>stdout = [strip payload], stderr = [], requests = [request],
                                 returns = Inr 0\<rparr>
                              else
                                \<lparr>stdout = fst (main_loop rt args [] 0 records), stderr = [],
                                 requests = [request], returns = Inr 0\<rparr>))))"

text \<open>
  \<open>main_reads rt args payload\<close>: the run gets as far as line 168 and reads \<open>payload\<close>. The
  credentials are set, the time window is resolved and the request is answered with a
  body.
\<close>

definition main_reads :: "runtime \<Rightarrow> args \<Rightarrow> ustring \<Rightarrow> bool" where
  "main_reads rt args payload \<longleftrightarrow>
     truthy (read_env rt (ustr ''CLOUDFLARE_ACCOUNT_ID'') None) \<and>
     truthy (read_env rt (ustr ''CLOUDFLARE_API_TOKEN'') None) \<and>
     (case main_window rt args of
        Inl ended \<Rightarrow> False
      | Inr (start_time, end_time) \<Rightarrow>
          urlopen rt (main_request rt args start_time end_time) = Body payload)"

section \<open>A runtime for the examples\<close>

text \<open>
  Both credentials set and nothing else in the environment, the clock at
  2026-11-04T00:00:00Z, a server that answers every request with the same response, and
  ASCII-only stand-ins for the library tables. The examples below use no timestamp
  parsing or formatting, so those entries are empty.
\<close>

definition ascii_decimal :: "nat \<Rightarrow> nat option" where
  "ascii_decimal c = (if is_digit c then Some (c - 0x30) else None)"

definition example_runtime :: "response \<Rightarrow> runtime" where
  "example_runtime answer =
     \<lparr>getenv =
        (\<lambda>name.
           if name = ustr ''CLOUDFLARE_ACCOUNT_ID'' then Some (ustr ''0123456789abcdef'')
           else if name = ustr ''CLOUDFLARE_API_TOKEN'' then Some (ustr ''secret'')
           else None),
      utcnow = 63929347200000000,
      urlopen = (\<lambda>request. answer),
      urlencode = (\<lambda>params. join (ustr ''&'') (map (\<lambda>kv. fst kv @ ustr ''='' @ snd kv) params)),
      fromisoformat = (\<lambda>text. None),
      strftime = (\<lambda>t. []),
      timestamp = (\<lambda>t. []),
      decimal = ascii_decimal,
      isprintable = (\<lambda>c. False),
      float_repr = (\<lambda>lexeme. lexeme)\<rparr>"

text \<open>The namespace of a run with no option but \<open>--since 15m\<close>.\<close>

definition example_args :: args where
  "example_args =
     \<lparr>since = Some (ustr ''15m''), start = None, end_arg = None, ray = None, worker = None,
      status = None, path = None, contains = None, fields_arg = None, dataset = None,
      endpoint = None, limit = None, sample = None, raw = False\<rparr>"

section \<open>Reading a value moves forward\<close>

lemma match_frac_length: "match_frac s = (f, r) \<Longrightarrow> length r \<le> length s"
  using length_dropWhile_le [of is_digit "tl s"]
  by (auto simp: match_frac_def split: list.splits if_splits)

lemma match_exp_length: "match_exp s = (e, r) \<Longrightarrow> length r \<le> length s"
proof (cases s)
  case Nil
  then show "match_exp s = (e, r) \<Longrightarrow> length r \<le> length s" by (simp add: match_exp_def)
next
  case (Cons c cs)
  assume m: "match_exp s = (e, r)"
  have a: "length (dropWhile is_digit cs) \<le> length cs" by (rule length_dropWhile_le)
  have b: "length (dropWhile is_digit (tl cs)) \<le> length (tl cs)" by (rule length_dropWhile_le)
  show "length r \<le> length s"
    using m Cons a b
    by (auto simp: match_exp_def Let_def split: list.splits if_splits)
qed

lemma match_number_length:
  assumes "match_number s = Some (i, f, e, rest)"
  shows "length rest < length s"
proof -
  obtain sign s1 where sg: "(case s of [] \<Rightarrow> ([], s) | c # cs \<Rightarrow> if c = 0x2D then ([c], cs) else ([], s)) = (sign, s1)"
    by (cases "(case s of [] \<Rightarrow> ([], s) | c # cs \<Rightarrow> if c = 0x2D then ([c], cs) else ([], s))") auto
  then have l1: "length s1 \<le> length s" by (auto split: list.splits if_splits)
  from assms sg obtain d ds where s1: "s1 = d # ds" and dg: "is_digit d"
    by (cases s1) (auto simp: match_number_def split: if_splits)
  obtain integer s2 where ig: "(if d = 0x30 then ([d], ds)
       else (d # takeWhile is_digit ds, dropWhile is_digit ds)) = (integer, s2)"
    by (cases "(if d = 0x30 then ([d], ds) else (d # takeWhile is_digit ds, dropWhile is_digit ds))") auto
  then have l2: "length s2 \<le> length ds"
    using length_dropWhile_le [of is_digit ds] by (auto split: if_splits)
  obtain fr s3 where fr: "match_frac s2 = (fr, s3)" by (cases "match_frac s2") auto
  obtain ex s4 where ex: "match_exp s3 = (ex, s4)" by (cases "match_exp s3") auto
  have "rest = s4"
    using assms sg s1 dg ig fr ex by (simp add: match_number_def)
  then show ?thesis
    using l1 l2 s1 match_frac_length [OF fr] match_exp_length [OF ex] by simp
qed

lemma scan_once_consumes_all:
  shows "\<forall>v rest. scan_once pf s = Some (v, rest) \<longrightarrow> length rest < length s"
    and "\<forall>v rest. array_items pf acc t = Some (v, rest) \<longrightarrow> length rest < length t"
    and "\<forall>v rest. object_pairs pf acc' u = Some (v, rest) \<longrightarrow> length rest < length u"
proof (induction pf s and pf acc t and pf acc' u rule: scan_once_array_items_object_pairs.induct)
  case (1 pf)
  then show ?case by (simp add: scan_once.simps)
next
  case (2 pf c cs)
  show ?case
  proof (intro allI impI)
    fix v rest
    assume h: "scan_once pf (c # cs) = Some (v, rest)"
    show "length rest < length (c # cs)"
    proof (cases "c = 0x22")
      case True
      then show ?thesis using h scanstring_length [of cs]
        by (auto simp: scan_once.simps split: option.splits)
    next
      case n1: False
      show ?thesis
      proof (cases "c = 0x7B")
        case True
        then show ?thesis using h n1 "2.IH"(1) skip_ws_Cons_length [of cs]
          by (fastforce simp: scan_once.simps split: list.splits if_splits)
      next
        case n2: False
        show ?thesis
        proof (cases "c = 0x5B")
          case True
          then show ?thesis using h n1 n2 "2.IH"(2) skip_ws_Cons_length [of cs]
            by (fastforce simp: scan_once.simps split: list.splits if_splits)
        next
          case n3: False
          show ?thesis
            using h n1 n2 n3 match_number_length [of "c # cs"]
            by (auto simp: scan_once.simps split: if_splits option.splits)
        qed
      qed
    qed
  qed
next
  case (3 pf acc s)
  show ?case
  proof (intro allI impI)
    fix v rest
    assume h: "array_items pf acc s = Some (v, rest)"
    then obtain x r1 where s1: "scan_once pf s = Some (x, r1)" and l1: "length r1 < length s"
      by (auto simp: array_items.simps split: option.splits if_splits)
    from h s1 l1 obtain d ds where sk: "skip_ws r1 = d # ds"
      by (cases "skip_ws r1") (auto simp: array_items.simps)
    have l2: "length ds < length r1 \<and> length (skip_ws ds) < length r1"
      using skip_ws_Cons_length [OF sk] .
    show "length rest < length s"
    proof (cases "d = 0x5D")
      case True
      then show ?thesis using h s1 l1 sk l2 by (simp add: array_items.simps)
    next
      case False
      then have d: "d = 0x2C" and rec: "array_items pf (acc @ [x]) (skip_ws ds) = Some (v, rest)"
        using h s1 l1 sk by (auto simp: array_items.simps split: if_splits)
      have "length rest < length (skip_ws ds)"
        using "3.IH"(2) [OF s1 refl l1 sk False d] rec by blast
      then show ?thesis using l1 l2 by simp
    qed
  qed
next
  case (4 pf acc s)
  show ?case
  proof (intro allI impI)
    fix v rest
    assume h: "object_pairs pf acc s = Some (v, rest)"
    then obtain key r1 where s1: "scanstring s = Some (key, r1)"
      by (auto simp: object_pairs.simps split: option.splits)
    have l1: "length r1 < length s" using scanstring_length [OF s1] .
    from h s1 obtain colon r2 where sk1: "skip_ws r1 = colon # r2"
      by (cases "skip_ws r1") (auto simp: object_pairs.simps)
    have l2: "length r2 < length r1 \<and> length (skip_ws r2) < length r1"
      using skip_ws_Cons_length [OF sk1] .
    from h s1 sk1 have col: "\<not> colon \<noteq> 0x3A"
      by (auto simp: object_pairs.simps split: if_splits)
    from h s1 sk1 col obtain x r3 where s2: "scan_once pf (skip_ws r2) = Some (x, r3)"
        and l3: "length r3 < length (skip_ws r2)"
      by (auto simp: object_pairs.simps split: option.splits if_splits)
    from h s1 sk1 col s2 l3 obtain d r4 where sk2: "skip_ws r3 = d # r4"
      by (cases "skip_ws r3") (auto simp: object_pairs.simps)
    have l4: "length r4 < length r3 \<and> length (skip_ws r4) < length r3"
      using skip_ws_Cons_length [OF sk2] .
    show "length rest < length s"
    proof (cases "d = 0x7D")
      case True
      then show ?thesis using h s1 sk1 col s2 l3 sk2 l1 l2 l4 by (simp add: object_pairs.simps)
    next
      case False
      then have d: "d = 0x2C" using h s1 sk1 col s2 l3 sk2
        by (auto simp: object_pairs.simps split: if_splits)
      from h s1 sk1 col s2 l3 sk2 d obtain q r5 where sk3: "skip_ws r4 = q # r5"
        by (cases "skip_ws r4") (auto simp: object_pairs.simps)
      have l5: "length r5 < length r4" using skip_ws_Cons_length [OF sk3] by simp
      have q: "q = 0x22" and rec: "object_pairs pf (dict_set acc key x) r5 = Some (v, rest)"
        using h s1 sk1 col s2 l3 sk2 d sk3 by (auto simp: object_pairs.simps split: if_splits)
      have "length rest < length r5"
        using "4.IH"(2) [OF s1 refl sk1 col s2 refl l3 sk2 False d sk3 q] rec by blast
      then show ?thesis using l1 l2 l3 l4 l5 by simp
    qed
  qed
qed

lemma scan_once_consumes: "scan_once pf s = Some (v, rest) \<Longrightarrow> length rest < length s"
  using scan_once_consumes_all(1) [of pf s] by blast

text \<open>So the loops are the loops of the decoder: the test in them is always passed.\<close>

lemma array_items_loop:
  "array_items pf acc s =
     (case scan_once pf s of
        None \<Rightarrow> None
      | Some (v, rest) \<Rightarrow>
          (case skip_ws rest of
             [] \<Rightarrow> None
           | d # ds \<Rightarrow>
               if d = 0x5D then Some (JArray (acc @ [v]), ds)
               else if d = 0x2C then array_items pf (acc @ [v]) (skip_ws ds)
               else None))"
  by (subst array_items.simps) (auto split: option.splits dest: scan_once_consumes)

lemma object_pairs_loop:
  "object_pairs pf acc s =
     (case scanstring s of
        None \<Rightarrow> None
      | Some (key, r1) \<Rightarrow>
          (case skip_ws r1 of
             [] \<Rightarrow> None
           | colon # r2 \<Rightarrow>
               if colon \<noteq> 0x3A then None
               else
                 (case scan_once pf (skip_ws r2) of
                    None \<Rightarrow> None
                  | Some (v, r3) \<Rightarrow>
                      (case skip_ws r3 of
                         [] \<Rightarrow> None
                       | d # r4 \<Rightarrow>
                           if d = 0x7D then Some (JObject (dict_set acc key v), r4)
                           else if d = 0x2C then
                             (case skip_ws r4 of
                                [] \<Rightarrow> None
                              | q # r5 \<Rightarrow>
                                  if q = 0x22 then object_pairs pf (dict_set acc key v) r5
                                  else None)
                           else None))))"
  by (subst object_pairs.simps) (auto split: option.splits list.splits dest: scan_once_consumes)

section \<open>The run behind the response, and the loop\<close>

lemma main_reads_outcome:
  assumes "main_reads rt args payload"
  shows "stderr (main rt args) = [] \<and> returns (main rt args) = Inr 0 \<and>
         length (requests (main rt args)) = 1 \<and>
         stdout (main rt args) =
           (if raw args then [payload]
            else if parse_records rt payload = [] then [strip payload]
            else fst (main_loop rt args [] 0 (parse_records rt payload)))"
  using assms
  by (auto simp: main_def main_reads_def Let_def split: sum.splits prod.splits)

lemma main_loop_unlimited:
  assumes "limit args = None \<or> limit args = Some 0"
  shows "main_loop rt args printed output_count records =
           (printed @ map (\<lambda>r. dumps (JObject r)) (filter (\<lambda>r. \<not> rejects rt args r) records), [])"
  using assms
  by (induction records arbitrary: printed output_count) (auto simp: limit_reached_def)

lemma main_loop_limited:
  assumes "limit args = Some L" and "0 \<le> output_count \<and> output_count < L"
    and "nat (L - output_count) \<le> length (filter (\<lambda>r. \<not> rejects rt args r) records)"
  shows "\<exists>pre post. records = pre @ post \<and> pre \<noteq> [] \<and> \<not> rejects rt args (last pre) \<and>
           length (filter (\<lambda>r. \<not> rejects rt args r) pre) = nat (L - output_count) \<and>
           main_loop rt args printed output_count records =
             (printed @ map (\<lambda>r. dumps (JObject r)) (filter (\<lambda>r. \<not> rejects rt args r) pre), post)"
  using assms
proof (induction records arbitrary: printed output_count)
  case Nil
  then show ?case by simp
next
  case (Cons r records)
  show ?case
  proof (cases "rejects rt args r")
    case True
    with Cons.prems have "nat (L - output_count) \<le> length (filter (\<lambda>r. \<not> rejects rt args r) records)"
      by simp
    from Cons.IH [OF Cons.prems(1) Cons.prems(2) this, of printed]
    obtain pre post where h: "records = pre @ post" "pre \<noteq> []" "\<not> rejects rt args (last pre)"
        "length (filter (\<lambda>r. \<not> rejects rt args r) pre) = nat (L - output_count)"
        "main_loop rt args printed output_count records =
             (printed @ map (\<lambda>r. dumps (JObject r)) (filter (\<lambda>r. \<not> rejects rt args r) pre), post)"
      by blast
    show ?thesis
      apply (rule exI [of _ "r # pre"], rule exI [of _ post])
      using h True by simp
  next
    case False
    show ?thesis
    proof (cases "L \<le> output_count + 1")
      case True
      then have "limit_reached (limit args) (output_count + 1)"
        using Cons.prems by (simp add: limit_reached_def)
      moreover have "nat (L - output_count) = 1" using True Cons.prems(2) by linarith
      ultimately show ?thesis
        apply -
        apply (rule exI [of _ "[r]"], rule exI [of _ records])
        using False by simp
    next
      case gt: False
      then have nr: "\<not> limit_reached (limit args) (output_count + 1)"
        using Cons.prems by (simp add: limit_reached_def)
      have le: "nat (L - (output_count + 1)) \<le> length (filter (\<lambda>r. \<not> rejects rt args r) records)"
        using Cons.prems False by simp
      have rng: "0 \<le> output_count + 1 \<and> output_count + 1 < L"
        using Cons.prems gt by simp
      from Cons.IH [OF Cons.prems(1) rng le, of "printed @ [dumps (JObject r)]"]
      obtain pre post where h: "records = pre @ post" "pre \<noteq> []" "\<not> rejects rt args (last pre)"
        "length (filter (\<lambda>r. \<not> rejects rt args r) pre) = nat (L - (output_count + 1))"
        "main_loop rt args (printed @ [dumps (JObject r)]) (output_count + 1) records =
             ((printed @ [dumps (JObject r)]) @ map (\<lambda>r. dumps (JObject r)) (filter (\<lambda>r. \<not> rejects rt args r) pre), post)"
        by blast
      have "Suc (nat (L - (output_count + 1))) = nat (L - output_count)"
        using gt by simp
      then show ?thesis
        apply -
        apply (rule exI [of _ "r # pre"], rule exI [of _ post])
        using h False nr by simp
    qed
  qed
qed

text \<open>Unfolding the definitions on concrete input.\<close>

lemmas text_eval = ustr_def isspace_def strip_def is_linebreak_def splitlines_def

lemmas json_eval = loads_def skip_ws_def json_ws_def scan_once.simps array_items.simps
  object_pairs.simps match_number_def match_frac_def match_exp_def is_digit_def
  int_of_lexeme_def int_of_digits_def decode_uXXXX_def hexval_def backslash_def cons_char_def

lemmas dumps_eval = escape_ascii_def encode_basestring_ascii_def floatstr_def str_int_def
  hexdigit_def

lemmas run_eval = main_reads_def main_window_def main_window_explicit_def parse_duration_def
  match_duration_def decimal_value_def timedelta_seconds_def datetime_sub_def datetime_max_def read_env_def
  truthy_def example_runtime_def example_args_def ascii_decimal_def parse_records_def
  as_dict_def List.map_filter_simps rejects_def field_rejects_def contains_rejects_def
  limit_reached_def py_str_def fail_def

section \<open>The limit\<close>

text \<open>
  C10. A limit of 0 is no limit: \<open>args.limit and ...\<close> is false for 0, so the loop never
  breaks and every record that passes the filters is printed, in order. The second part
  is the same on the whole run, when the body holds at least one record.
\<close>

theorem C10_limit_zero_is_no_limit:
  assumes "limit args = Some 0"
  shows "main_loop rt args printed output_count records =
           (printed @ map (\<lambda>r. dumps (JObject r)) (filter (\<lambda>r. \<not> rejects rt args r) records), []) \<and>
         (main_reads rt args payload \<and> \<not> raw args \<and> parse_records rt payload = records \<and>
          records \<noteq> [] \<longrightarrow>
            stdout (main rt args) =
              map (\<lambda>r. dumps (JObject r)) (filter (\<lambda>r. \<not> rejects rt args r) records))"
  using assms main_loop_unlimited [of args rt "[]" 0 records] main_reads_outcome [of rt args payload]
  by (auto simp: main_loop_unlimited)

theorem C10_limit_zero_witness:
  \<open>limit (example_args\<lparr>limit := Some 0\<rparr>) = Some 0 \<and>
   stdout (main (example_runtime (Body (ustr ''{"n": 1}'' @ [0x0A] @ ustr ''{"n": 2}'' @ [0x0A] @ ustr ''{"n": 3}'')))
             (example_args\<lparr>limit := Some 0\<rparr>)) =
     [ustr ''{"n": 1}'', ustr ''{"n": 2}'', ustr ''{"n": 3}'']\<close>
  using C10_limit_zero_is_no_limit [of "example_args\<lparr>limit := Some 0\<rparr>"
      "example_runtime (Body (ustr ''{\"n\": 1}'' @ [0x0A] @ ustr ''{\"n\": 2}'' @ [0x0A] @ ustr ''{\"n\": 3}''))"
      "[]" 0
      "[[(ustr ''n'', JInt 1)], [(ustr ''n'', JInt 2)], [(ustr ''n'', JInt 3)]]"
      "ustr ''{\"n\": 1}'' @ [0x0A] @ ustr ''{\"n\": 2}'' @ [0x0A] @ ustr ''{\"n\": 3}''"]
  by (simp add: text_eval json_eval dumps_eval run_eval)

text \<open>
  C7. With a positive limit \<open>L\<close> and at least \<open>L\<close> records that pass the filters, the
  list of records splits into \<open>pre\<close>, which ends with the \<open>L\<close>-th record that passes, and
  \<open>post\<close>: the loop prints the \<open>L\<close> passing records of \<open>pre\<close> and breaks, and \<open>post\<close> is
  what it never takes from the list, so no filter is evaluated on it. On the whole run
  exactly \<open>L\<close> lines are printed.
\<close>

theorem C7_limit_short_circuit:
  assumes "limit args = Some L" and "0 < L"
    and "nat L \<le> length (filter (\<lambda>r. \<not> rejects rt args r) records)"
  shows "\<exists>pre post.
           records = pre @ post \<and> pre \<noteq> [] \<and> \<not> rejects rt args (last pre) \<and>
           length (filter (\<lambda>r. \<not> rejects rt args r) pre) = nat L \<and>
           main_loop rt args [] 0 records =
             (map (\<lambda>r. dumps (JObject r)) (filter (\<lambda>r. \<not> rejects rt args r) pre), post) \<and>
           (main_reads rt args payload \<and> \<not> raw args \<and> parse_records rt payload = records \<longrightarrow>
              stdout (main rt args) =
                map (\<lambda>r. dumps (JObject r)) (filter (\<lambda>r. \<not> rejects rt args r) pre) \<and>
              length (stdout (main rt args)) = nat L)"
proof -
  have rng: "0 \<le> (0::int) \<and> 0 < L" using assms(2) by simp
  have le: "nat (L - 0) \<le> length (filter (\<lambda>r. \<not> rejects rt args r) records)"
    using assms(3) by simp
  from main_loop_limited [OF assms(1) rng le, of "[]"]
  obtain pre post where h: "records = pre @ post" "pre \<noteq> []" "\<not> rejects rt args (last pre)"
      "length (filter (\<lambda>r. \<not> rejects rt args r) pre) = nat L"
      "main_loop rt args [] 0 records =
         (map (\<lambda>r. dumps (JObject r)) (filter (\<lambda>r. \<not> rejects rt args r) pre), post)"
    by auto
  have "records \<noteq> []" using h(1,2) by simp
  then have "main_reads rt args payload \<and> \<not> raw args \<and> parse_records rt payload = records \<longrightarrow>
      stdout (main rt args) =
        map (\<lambda>r. dumps (JObject r)) (filter (\<lambda>r. \<not> rejects rt args r) pre) \<and>
      length (stdout (main rt args)) = nat L"
    using main_reads_outcome [of rt args payload] h(4,5) by auto
  with h show ?thesis by blast
qed

theorem C7_limit_witness:
  \<open>limit (example_args\<lparr>limit := Some 2\<rparr>) = Some 2 \<and>
   main_loop (example_runtime (Body [])) (example_args\<lparr>limit := Some 2\<rparr>) [] 0
     [[(ustr ''n'', JInt 1)], [(ustr ''n'', JInt 2)], [(ustr ''n'', JInt 3)],
      [(ustr ''n'', JInt 4)], [(ustr ''n'', JInt 5)]] =
     ([ustr ''{"n": 1}'', ustr ''{"n": 2}''],
      [[(ustr ''n'', JInt 3)], [(ustr ''n'', JInt 4)], [(ustr ''n'', JInt 5)]]) \<and>
   stdout (main (example_runtime (Body (ustr ''{"n": 1}'' @ [0x0A] @ ustr ''{"n": 2}'' @ [0x0A] @
             ustr ''{"n": 3}'' @ [0x0A] @ ustr ''{"n": 4}'' @ [0x0A] @ ustr ''{"n": 5}'')))
             (example_args\<lparr>limit := Some 2\<rparr>)) =
     [ustr ''{"n": 1}'', ustr ''{"n": 2}'']\<close>
  using C7_limit_short_circuit [where args = "example_args\<lparr>limit := Some 2\<rparr>" and L = 2
      and rt = "example_runtime (Body [])"
      and records = "[[(ustr ''n'', JInt 1)], [(ustr ''n'', JInt 2)], [(ustr ''n'', JInt 3)],
        [(ustr ''n'', JInt 4)], [(ustr ''n'', JInt 5)]]"]
    C7_limit_short_circuit [where args = "example_args\<lparr>limit := Some 2\<rparr>" and L = 2
      and rt = "example_runtime (Body (ustr ''{\"n\": 1}'' @ [0x0A] @ ustr ''{\"n\": 2}'' @ [0x0A] @
             ustr ''{\"n\": 3}'' @ [0x0A] @ ustr ''{\"n\": 4}'' @ [0x0A] @ ustr ''{\"n\": 5}''))"
      and payload = "ustr ''{\"n\": 1}'' @ [0x0A] @ ustr ''{\"n\": 2}'' @ [0x0A] @
             ustr ''{\"n\": 3}'' @ [0x0A] @ ustr ''{\"n\": 4}'' @ [0x0A] @ ustr ''{\"n\": 5}''"
      and records = "[[(ustr ''n'', JInt 1)], [(ustr ''n'', JInt 2)], [(ustr ''n'', JInt 3)],
        [(ustr ''n'', JInt 4)], [(ustr ''n'', JInt 5)]]"]
  by (simp add: text_eval json_eval dumps_eval run_eval main_def)

section \<open>The filters\<close>

lemma startswith_iff: "startswith s p \<longleftrightarrow> (\<exists>post. s = p @ post)"
  by (induction s p rule: startswith.induct) auto

lemma str_contains_iff: "str_contains needle hay \<longleftrightarrow> (\<exists>pre post. hay = pre @ needle @ post)"
proof (induction hay)
  case Nil
  then show ?case by simp
next
  case (Cons c cs)
  show ?case
  proof
    assume "str_contains needle (c # cs)"
    then consider "startswith (c # cs) needle" | "str_contains needle cs" by auto
    then show "\<exists>pre post. c # cs = pre @ needle @ post"
    proof cases
      case 1
      then obtain post where "c # cs = needle @ post" by (auto simp: startswith_iff)
      then have "c # cs = [] @ needle @ post" by simp
      then show ?thesis by blast
    next
      case 2
      then obtain pre post where "cs = pre @ needle @ post" using Cons.IH by auto
      then have "c # cs = (c # pre) @ needle @ post" by simp
      then show ?thesis by blast
    qed
  next
    assume "\<exists>pre post. c # cs = pre @ needle @ post"
    then obtain pre post where h: "c # cs = pre @ needle @ post" by blast
    show "str_contains needle (c # cs)"
    proof (cases pre)
      case Nil
      then have "startswith (c # cs) needle" using h by (auto simp: startswith_iff)
      then show ?thesis by simp
    next
      case (Cons a pre')
      then have "cs = pre' @ needle @ post" using h by simp
      then have "str_contains needle cs" using Cons.IH by blast
      then show ?thesis by simp
    qed
  qed
qed

lemma get_value_iff:
  "get_value rt record keys = Some s \<longleftrightarrow>
     (\<exists>before key after v.
        keys = before @ key # after \<and> (\<forall>k\<in>set before. map_of record k = None) \<and>
        map_of record key = Some v \<and> v \<noteq> JNull \<and> s = py_str (isprintable rt) v)"
proof (induction keys)
  case Nil
  then show ?case by simp
next
  case (Cons k keys)
  show ?case
  proof (cases "map_of record k")
    case None
    have "(\<exists>before key after v.
        k # keys = before @ key # after \<and> (\<forall>k\<in>set before. map_of record k = None) \<and>
        map_of record key = Some v \<and> v \<noteq> JNull \<and> s = py_str (isprintable rt) v) \<longleftrightarrow>
      (\<exists>before key after v.
        keys = before @ key # after \<and> (\<forall>k\<in>set before. map_of record k = None) \<and>
        map_of record key = Some v \<and> v \<noteq> JNull \<and> s = py_str (isprintable rt) v)"
      (is "?L \<longleftrightarrow> ?R")
    proof
      assume ?L
      then obtain before key after v where h: "k # keys = before @ key # after"
        "\<forall>k\<in>set before. map_of record k = None" "map_of record key = Some v" "v \<noteq> JNull"
        "s = py_str (isprintable rt) v" by blast
      from h(1,3) None obtain b' where "before = k # b'" by (cases before) auto
      with h show ?R by auto
    next
      assume ?R
      then obtain before key after v where h: "keys = before @ key # after"
        "\<forall>k\<in>set before. map_of record k = None" "map_of record key = Some v" "v \<noteq> JNull"
        "s = py_str (isprintable rt) v" by blast
      have "k # keys = (k # before) @ key # after" using h(1) by simp
      moreover have "\<forall>k\<in>set (k # before). map_of record k = None" using h(2) None by simp
      ultimately show ?L using h(3,4,5) by blast
    qed
    then show ?thesis using None Cons.IH by simp
  next
    case (Some v)
    have "(\<exists>before key after v'.
        k # keys = before @ key # after \<and> (\<forall>k\<in>set before. map_of record k = None) \<and>
        map_of record key = Some v' \<and> v' \<noteq> JNull \<and> s = py_str (isprintable rt) v') \<longleftrightarrow>
      (v \<noteq> JNull \<and> s = py_str (isprintable rt) v)" (is "?L \<longleftrightarrow> ?R")
    proof
      assume ?L
      then obtain before key after v' where h: "k # keys = before @ key # after"
        "\<forall>k\<in>set before. map_of record k = None" "map_of record key = Some v'" "v' \<noteq> JNull"
        "s = py_str (isprintable rt) v'" by blast
      have "before = []"
      proof (cases before)
        case Nil then show ?thesis .
      next
        case (Cons a b')
        then have "a = k" using h(1) by simp
        then show ?thesis using h(2) Some Cons by simp
      qed
      then show ?R using h Some by simp
    next
      assume ?R
      then have "k # keys = [] @ k # keys \<and> (\<forall>k\<in>set []. map_of record k = None) \<and>
        map_of record k = Some v \<and> v \<noteq> JNull \<and> s = py_str (isprintable rt) v"
        using Some by simp
      then show ?L by blast
    qed
    then show ?thesis using Some by auto
  qed
qed

lemma field_rejects_iff:
  "\<not> field_rejects rt (Some wanted) keys record \<longleftrightarrow>
     wanted = [] \<or>
     (\<exists>before key after v.
        keys = before @ key # after \<and> (\<forall>k\<in>set before. map_of record k = None) \<and>
        map_of record key = Some v \<and> v \<noteq> JNull \<and>
        (\<exists>pre post. py_str (isprintable rt) v = pre @ wanted @ post))"
proof (cases "wanted = []")
  case True
  then show ?thesis by (simp add: field_rejects_def)
next
  case False
  show ?thesis
  proof (cases "get_value rt record keys")
    case None
    then have "\<not> (\<exists>s. get_value rt record keys = Some s)" by simp
    then have "\<not> (\<exists>before key after v.
        keys = before @ key # after \<and> (\<forall>k\<in>set before. map_of record k = None) \<and>
        map_of record key = Some v \<and> v \<noteq> JNull)"
      unfolding get_value_iff by blast
    then show ?thesis using None False by (auto simp: field_rejects_def)
  next
    case (Some s)
    then obtain before key after v where h: "keys = before @ key # after"
        "\<forall>k\<in>set before. map_of record k = None" "map_of record key = Some v" "v \<noteq> JNull"
        "s = py_str (isprintable rt) v"
      unfolding get_value_iff by blast
    have uniq: "\<And>before' key' after' v'. keys = before' @ key' # after' \<Longrightarrow>
        (\<forall>k\<in>set before'. map_of record k = None) \<Longrightarrow> map_of record key' = Some v' \<Longrightarrow>
        v' \<noteq> JNull \<Longrightarrow> py_str (isprintable rt) v' = s"
    proof -
      fix before' key' after' v'
      assume "keys = before' @ key' # after'" "\<forall>k\<in>set before'. map_of record k = None"
        "map_of record key' = Some v'" "v' \<noteq> JNull"
      then have "get_value rt record keys = Some (py_str (isprintable rt) v')"
        unfolding get_value_iff by blast
      then show "py_str (isprintable rt) v' = s" using Some by simp
    qed
    have "\<not> field_rejects rt (Some wanted) keys record \<longleftrightarrow> s \<noteq> [] \<and> str_contains wanted s"
      using Some False by (simp add: field_rejects_def)
    also have "\<dots> \<longleftrightarrow> (\<exists>pre post. s = pre @ wanted @ post)"
      using False by (auto simp: str_contains_iff)
    also have "\<dots> \<longleftrightarrow> (\<exists>before key after v.
        keys = before @ key # after \<and> (\<forall>k\<in>set before. map_of record k = None) \<and>
        map_of record key = Some v \<and> v \<noteq> JNull \<and>
        (\<exists>pre post. py_str (isprintable rt) v = pre @ wanted @ post))"
      using h uniq by metis
    finally show ?thesis using False by simp
  qed
qed

text \<open>
  C8. With \<open>--ray abc\<close> as the only filter, of the records \<open>{"RayID": "abc123"}\<close> and
  \<open>{"ray_id": "xyz999"}\<close> exactly the first is printed. In general a field filter that is
  set to \<open>wanted\<close> keeps a record if and only if \<open>wanted\<close> is empty (the filter is then not
  applied) or the first key of the alias list that is present in the record has a value
  other than \<open>None\<close> whose \<open>str\<close> contains \<open>wanted\<close> as a contiguous run of code points,
  compared code point by code point, so case matters.
\<close>

theorem C8_ray_filter:
  assumes "ray args = Some (ustr ''abc'')" and "worker args = None" and "status args = None"
    and "path args = None" and "contains args = None"
  shows \<open>fst (main_loop rt args [] 0
            [[(ustr ''RayID'', JString (ustr ''abc123''))],
             [(ustr ''ray_id'', JString (ustr ''xyz999''))]]) =
          [ustr ''{"RayID": "abc123"}''] \<and>
         (main_reads rt args payload \<and> \<not> raw args \<and>
          parse_records rt payload =
            [[(ustr ''RayID'', JString (ustr ''abc123''))],
             [(ustr ''ray_id'', JString (ustr ''xyz999''))]] \<longrightarrow>
            stdout (main rt args) = [ustr ''{"RayID": "abc123"}'']) \<and>
         (rejects rt args record \<longleftrightarrow>
            field_rejects rt (ray args) [ustr ''RayID'', ustr ''RayId'', ustr ''ray_id''] record) \<and>
         (\<not> field_rejects rt (Some wanted) keys record \<longleftrightarrow>
            wanted = [] \<or>
            (\<exists>before key after v.
               keys = before @ key # after \<and> (\<forall>k\<in>set before. map_of record k = None) \<and>
               map_of record key = Some v \<and> v \<noteq> JNull \<and>
               (\<exists>pre post. py_str (isprintable rt) v = pre @ wanted @ post)))\<close>
proof -
  have rj: "\<And>r. rejects rt args r \<longleftrightarrow>
      field_rejects rt (ray args) [ustr ''RayID'', ustr ''RayId'', ustr ''ray_id''] r"
    using assms by (simp add: rejects_def field_rejects_def contains_rejects_def)
  have r1: "\<not> rejects rt args [(ustr ''RayID'', JString (ustr ''abc123''))]"
    unfolding rj using assms(1) by (simp add: field_rejects_def py_str_def ustr_def)
  have r2: "rejects rt args [(ustr ''ray_id'', JString (ustr ''xyz999''))]"
    unfolding rj using assms(1) by (simp add: field_rejects_def py_str_def ustr_def)
  have d: \<open>dumps (JObject [(ustr ''RayID'', JString (ustr ''abc123''))]) = ustr ''{"RayID": "abc123"}''\<close>
    by (simp add: dumps_eval ustr_def)
  have lp: \<open>fst (main_loop rt args [] 0
            [[(ustr ''RayID'', JString (ustr ''abc123''))],
             [(ustr ''ray_id'', JString (ustr ''xyz999''))]]) =
          [ustr ''{"RayID": "abc123"}'']\<close>
    using r1 r2 d by simp
  show ?thesis
    using lp rj field_rejects_iff [of rt wanted keys "record"]
      main_reads_outcome [of rt args payload]
    by auto
qed

theorem C8_ray_filter_witness:
  \<open>ray (example_args\<lparr>ray := Some (ustr ''abc'')\<rparr>) = Some (ustr ''abc'') \<and>
   stdout (main (example_runtime (Body (ustr ''{"RayID": "abc123"}'' @ [0x0A] @
                                         ustr ''{"ray_id": "xyz999"}'')))
             (example_args\<lparr>ray := Some (ustr ''abc'')\<rparr>)) =
     [ustr ''{"RayID": "abc123"}''] \<and>
   rejects (example_runtime (Body [])) (example_args\<lparr>ray := Some (ustr ''ABC'')\<rparr>)
     [(ustr ''RayID'', JString (ustr ''abc123''))]\<close>
  using C8_ray_filter [of "example_args\<lparr>ray := Some (ustr ''abc'')\<rparr>"
      "example_runtime (Body (ustr ''{\"RayID\": \"abc123\"}'' @ [0x0A] @ ustr ''{\"ray_id\": \"xyz999\"}''))"
      "ustr ''{\"RayID\": \"abc123\"}'' @ [0x0A] @ ustr ''{\"ray_id\": \"xyz999\"}''"]
  by (simp add: text_eval json_eval dumps_eval run_eval)

text \<open>
  C9. When the first alias key of a field is present with the value \<open>None\<close>, \<open>get_value\<close>
  returns \<open>None\<close> without looking at the later aliases, a filter on that field rejects the
  record whatever the later aliases hold, and the loop prints nothing for it.
\<close>

theorem C9_null_alias_rejects:
  assumes "map_of record key = Some JNull"
  shows "get_value rt record (key # keys) = None \<and>
         (wanted \<noteq> [] \<longrightarrow> field_rejects rt (Some wanted) (key # keys) record) \<and>
         (ray args = Some wanted \<and> wanted \<noteq> [] \<and> key = ustr ''RayID'' \<longrightarrow> rejects rt args record) \<and>
         (worker args = Some wanted \<and> wanted \<noteq> [] \<and> key = ustr ''ScriptName'' \<longrightarrow>
            rejects rt args record) \<and>
         (status args = Some wanted \<and> wanted \<noteq> [] \<and> key = ustr ''Status'' \<longrightarrow>
            rejects rt args record) \<and>
         (path args = Some wanted \<and> wanted \<noteq> [] \<and> key = ustr ''Path'' \<longrightarrow> rejects rt args record) \<and>
         (rejects rt args record \<longrightarrow>
            main_loop rt args printed output_count (record # records) =
            main_loop rt args printed output_count records)"
  using assms by (auto simp: field_rejects_def rejects_def)

theorem C9_null_alias_witness:
  "map_of [(ustr ''RayID'', JNull), (ustr ''ray_id'', JString (ustr ''abc123''))] (ustr ''RayID'') =
     Some JNull \<and>
   get_value (example_runtime (Body []))
     [(ustr ''RayID'', JNull), (ustr ''ray_id'', JString (ustr ''abc123''))]
     [ustr ''RayID'', ustr ''RayId'', ustr ''ray_id''] = None \<and>
   rejects (example_runtime (Body [])) (example_args\<lparr>ray := Some (ustr ''abc'')\<rparr>)
     [(ustr ''RayID'', JNull), (ustr ''ray_id'', JString (ustr ''abc123''))] \<and>
   \<not> rejects (example_runtime (Body [])) (example_args\<lparr>ray := Some (ustr ''abc'')\<rparr>)
     [(ustr ''ray_id'', JString (ustr ''abc123''))]"
  using C9_null_alias_rejects [of "[(ustr ''RayID'', JNull), (ustr ''ray_id'', JString (ustr ''abc123''))]"
      "ustr ''RayID''" "example_runtime (Body [])" "[ustr ''RayId'', ustr ''ray_id'']" "ustr ''abc''"
      "example_args\<lparr>ray := Some (ustr ''abc'')\<rparr>"]
  by (simp add: text_eval run_eval)

section \<open>Bodies without records\<close>

lemma main_loop_all_rejected:
  assumes "\<forall>r\<in>set records. rejects rt args r"
  shows "main_loop rt args printed output_count records = (printed, [])"
  using assms by (induction records) auto

text \<open>
  C3. On a run that reads a body, raw mode off: when the body parses to no record, the
  trimmed body is the one thing printed and \<open>main\<close> returns 0; when it parses to records
  and the filters reject every one of them, nothing is printed and \<open>main\<close> returns 0.
\<close>

theorem C3_two_empty_outputs:
  assumes "main_reads rt args payload" and "\<not> raw args"
  shows "(parse_records rt payload = [] \<longrightarrow>
            stdout (main rt args) = [strip payload] \<and> returns (main rt args) = Inr 0) \<and>
         (parse_records rt payload \<noteq> [] \<and>
          (\<forall>r\<in>set (parse_records rt payload). rejects rt args r) \<longrightarrow>
            stdout (main rt args) = [] \<and> returns (main rt args) = Inr 0)"
  using assms main_reads_outcome [of rt args payload]
    main_loop_all_rejected [of "parse_records rt payload" rt args "[]" 0]
  by auto

theorem C3_two_empty_outputs_witness:
  \<open>main_reads (example_runtime (Body (ustr ''  upstream timeout'' @ [0x0A]))) example_args
     (ustr ''  upstream timeout'' @ [0x0A]) \<and>
   stdout (main (example_runtime (Body (ustr ''  upstream timeout'' @ [0x0A]))) example_args) =
     [ustr ''upstream timeout''] \<and>
   returns (main (example_runtime (Body (ustr ''  upstream timeout'' @ [0x0A]))) example_args) =
     Inr 0 \<and>
   parse_records (example_runtime (Body (ustr ''{"RayID": "abc123"}'')))
     (ustr ''{"RayID": "abc123"}'') = [[(ustr ''RayID'', JString (ustr ''abc123''))]] \<and>
   stdout (main (example_runtime (Body (ustr ''{"RayID": "abc123"}'')))
             (example_args\<lparr>ray := Some (ustr ''zzz'')\<rparr>)) = [] \<and>
   returns (main (example_runtime (Body (ustr ''{"RayID": "abc123"}'')))
              (example_args\<lparr>ray := Some (ustr ''zzz'')\<rparr>)) = Inr 0\<close>
  using C3_two_empty_outputs [of "example_runtime (Body (ustr ''  upstream timeout'' @ [0x0A]))"
      example_args "ustr ''  upstream timeout'' @ [0x0A]"]
    C3_two_empty_outputs [of "example_runtime (Body (ustr ''{\"RayID\": \"abc123\"}''))"
      "example_args\<lparr>ray := Some (ustr ''zzz'')\<rparr>" "ustr ''{\"RayID\": \"abc123\"}''"]
  by (simp add: text_eval json_eval dumps_eval run_eval)

text \<open>
  An empty or blank body is not silent. It parses to no record, so line 186 prints the
  trimmed body, which is the empty string: one \<open>print\<close> call, one empty line on standard
  output.
\<close>

theorem C5_blank_body_counterexample:
  "stdout (main (example_runtime (Body [0x20, 0x0A])) example_args) = [[]] \<and>
   returns (main (example_runtime (Body [0x20, 0x0A])) example_args) = Inr 0 \<and>
   stdout (main (example_runtime (Body [])) example_args) = [[]] \<and>
   returns (main (example_runtime (Body [])) example_args) = Inr 0"
  using main_reads_outcome [of "example_runtime (Body [0x20, 0x0A])" example_args "[0x20, 0x0A]"]
    main_reads_outcome [of "example_runtime (Body [])" example_args "[]"]
  by (simp add: text_eval json_eval run_eval)

text \<open>
  C5, amended. When the body is empty or blank and raw mode is off, \<open>main\<close> returns 0 and
  prints exactly once to standard output, the empty string: one empty line.
\<close>

theorem C5_blank_body:
  assumes "main_reads rt args payload" and "\<not> raw args" and "strip payload = []"
  shows "returns (main rt args) = Inr 0 \<and> stdout (main rt args) = [[]] \<and>
         stderr (main rt args) = []"
  using assms main_reads_outcome [of rt args payload] by (simp add: parse_records_def)

theorem C5_blank_body_witness:
  "main_reads (example_runtime (Body [0x20, 0x0A])) example_args [0x20, 0x0A] \<and>
   \<not> raw example_args \<and> strip [0x20, 0x0A] = [] \<and>
   returns (main (example_runtime (Body [0x20, 0x0A])) example_args) = Inr 0 \<and>
   stdout (main (example_runtime (Body [0x20, 0x0A])) example_args) = [[]]"
  using C5_blank_body [of "example_runtime (Body [0x20, 0x0A])" example_args "[0x20, 0x0A]"]
  by (simp add: text_eval json_eval run_eval)

section \<open>The time window\<close>

lemma those_length: "those xs = Some ys \<Longrightarrow> length ys = length xs"
  by (induction xs arbitrary: ys) (auto split: option.splits)

lemma timedelta_seconds_in_range:
  assumes "0 \<le> n" and "n * 1000000 \<le> datetime_max"
  shows "timedelta_seconds n = Inr (n * 1000000)"
proof -
  have "n < 3652059 * 86400" using assms(2) by (simp add: datetime_max_def)
  then have "n div 86400 < 3652059" by simp
  moreover have "0 \<le> n div 86400" using assms(1) by simp
  ultimately show ?thesis by (simp add: timedelta_seconds_def)
qed

text \<open>
  A duration can be valid and still leave no window. \<open>1000000d\<close> matches the pattern
  and makes a \<open>timedelta\<close>, but 1000000 days before 2026 lies before year 1, so the
  subtraction on line 115 raises \<open>OverflowError\<close>. Line 116 catches \<open>ValueError\<close> only:
  the exception leaves \<open>main\<close>, and no window is resolved.
\<close>

theorem C6_duration_window_counterexample:
  "parse_duration (example_runtime (Body [])) (ustr ''1000000d'') = Inr (86400000000 * 1000000) \<and>
   main_window (example_runtime (Body [])) (example_args\<lparr>since := Some (ustr ''1000000d'')\<rparr>) =
     Inl (fail [] [] (Inl OverflowError)) \<and>
   returns (main (example_runtime (Body [])) (example_args\<lparr>since := Some (ustr ''1000000d'')\<rparr>)) =
     Inl OverflowError"
  by (simp add: text_eval json_eval run_eval main_def)

text \<open>
  C6, amended. For a duration \<open>digits\<close> followed by \<open>unit\<close> (white space around it is
  trimmed), with \<open>n\<close> the number the digits write and \<open>len\<close> the length of the unit, that
  reaches back no further than \<open>datetime.min\<close>, the window is resolved, its end is the
  clock's now and its start lies \<open>n * len\<close> seconds before.
\<close>

theorem C6_duration_window:
  assumes "since args = Some value" and "strip value = digits @ [unit]" and "digits \<noteq> []"
    and "those (map (decimal rt) digits) = Some ds" and "unit_length unit = Some len"
    and "utcnow rt \<le> datetime_max"
    and "int (decimal_value ds) * len * 1000000 \<le> utcnow rt"
  shows "main_window rt args =
           Inr (utcnow rt - int (decimal_value ds) * len * 1000000, utcnow rt)"
proof -
  have v: "value \<noteq> []" using assms(2) by (auto simp: strip_def)
  have "length ds = length digits" using those_length [OF assms(4)] by simp
  then obtain d ds' where ds: "ds = d # ds'" using assms(3) by (cases ds) auto
  have len: "0 < len" using assms(5) by (auto simp: unit_length_def split: if_splits)
  have m: "match_duration (decimal rt) (strip value) = Some (decimal_value ds, unit)"
    using assms(2,4,5) ds by (auto simp: match_duration_def unit_length_def split: if_splits)
  let ?n = "int (decimal_value ds) * len"
  have n0: "0 \<le> ?n" using len by simp
  have nmax: "?n * 1000000 \<le> datetime_max" using assms(6,7) by simp
  have pd: "parse_duration rt value = timedelta_seconds ?n"
    using m assms(5) by (auto simp: parse_duration_def unit_length_def split: if_splits)
  then have pd': "parse_duration rt value = Inr (?n * 1000000)"
    using timedelta_seconds_in_range [OF n0 nmax] by simp
  have sub: "datetime_sub (utcnow rt) (?n * 1000000) = Inr (utcnow rt - ?n * 1000000)"
    using assms(6,7) n0 by (simp add: datetime_sub_def)
  show ?thesis
    using assms(1) v pd' sub by (simp add: main_window_def Let_def)
qed

theorem C6_duration_window_witness:
  "since example_args = Some (ustr ''15m'') \<and> strip (ustr ''15m'') = ustr ''15'' @ [0x6D] \<and>
   those (map (decimal (example_runtime (Body []))) (ustr ''15'')) = Some [1, 5] \<and>
   decimal_value [1, 5] = 15 \<and> unit_length 0x6D = Some 60 \<and>
   main_window (example_runtime (Body [])) example_args =
     Inr (63929347200000000 - 15 * 60 * 1000000, 63929347200000000)"
  using C6_duration_window [of example_args "ustr ''15m''" "ustr ''15''" "0x6D"
      "example_runtime (Body [])" "[1, 5]" 60]
  by (simp add: text_eval json_eval run_eval unit_length_def)

section \<open>The time arguments\<close>

lemma main_loop_ignores_explicit_times:
  "main_loop rt (args\<lparr>start := a, end_arg := b\<rparr>) printed output_count records =
   main_loop rt args printed output_count records"
  by (induction records arbitrary: printed output_count) (auto simp: rejects_def)

text \<open>
  \<open>--since\<close> together with \<open>--from\<close> and \<open>--to\<close> is no usage error. Line 112 tests
  \<open>args.since\<close> alone, and the \<open>else\<close> branch is the only place that looks at \<open>args.start\<close>
  and \<open>args.end\<close>: the request is sent and \<open>main\<close> returns 0.
\<close>

theorem C1_time_arguments_counterexample:
  "truthy (since (example_args\<lparr>start := Some (ustr ''2026-01-27T12:00:00Z''),
                               end_arg := Some (ustr ''2026-01-27T13:00:00Z'')\<rparr>)) \<and>
   truthy (start (example_args\<lparr>start := Some (ustr ''2026-01-27T12:00:00Z''),
                               end_arg := Some (ustr ''2026-01-27T13:00:00Z'')\<rparr>)) \<and>
   truthy (end_arg (example_args\<lparr>start := Some (ustr ''2026-01-27T12:00:00Z''),
                                 end_arg := Some (ustr ''2026-01-27T13:00:00Z'')\<rparr>)) \<and>
   returns (main (example_runtime (Body []))
              (example_args\<lparr>start := Some (ustr ''2026-01-27T12:00:00Z''),
                             end_arg := Some (ustr ''2026-01-27T13:00:00Z'')\<rparr>)) = Inr 0 \<and>
   stderr (main (example_runtime (Body []))
             (example_args\<lparr>start := Some (ustr ''2026-01-27T12:00:00Z''),
                            end_arg := Some (ustr ''2026-01-27T13:00:00Z'')\<rparr>)) = [] \<and>
   length (requests (main (example_runtime (Body []))
             (example_args\<lparr>start := Some (ustr ''2026-01-27T12:00:00Z''),
                            end_arg := Some (ustr ''2026-01-27T13:00:00Z'')\<rparr>))) = 1"
  using main_reads_outcome [of "example_runtime (Body [])"
      "example_args\<lparr>start := Some (ustr ''2026-01-27T12:00:00Z''),
                     end_arg := Some (ustr ''2026-01-27T13:00:00Z'')\<rparr>" "[]"]
  by (simp add: text_eval json_eval run_eval)

text \<open>
  C1, amended. Without a duration (not given, or empty) and without both of \<open>--from\<close> and
  \<open>--to\<close> (one not given, or empty), \<open>main\<close> writes one message to standard error, returns 1
  and sends no request. With a duration, \<open>--from\<close> and \<open>--to\<close> are never read: the run is the
  same whatever they are.
\<close>

theorem C1_time_arguments:
  "(\<not> truthy (since args) \<and> (\<not> truthy (start args) \<or> \<not> truthy (end_arg args)) \<longrightarrow>
      returns (main rt args) = Inr 1 \<and> requests (main rt args) = [] \<and>
      stdout (main rt args) = [] \<and>
      (stderr (main rt args) = [ustr ''Provide --since or both --from/--to''] \<or>
       stderr (main rt args) = [ustr ''Missing CLOUDFLARE_ACCOUNT_ID or CLOUDFLARE_API_TOKEN''])) \<and>
   (truthy (since args) \<longrightarrow> main rt (args\<lparr>start := a, end_arg := b\<rparr>) = main rt args)"
proof (intro conjI impI)
  assume h: "\<not> truthy (since args) \<and> (\<not> truthy (start args) \<or> \<not> truthy (end_arg args))"
  then have w: "main_window rt args =
      Inl (fail [ustr ''Provide --since or both --from/--to''] [] (Inr 1))"
    by (auto simp: main_window_def main_window_explicit_def truthy_def split: option.splits)
  show "returns (main rt args) = Inr 1" "requests (main rt args) = []"
    "stdout (main rt args) = []"
    "stderr (main rt args) = [ustr ''Provide --since or both --from/--to''] \<or>
     stderr (main rt args) = [ustr ''Missing CLOUDFLARE_ACCOUNT_ID or CLOUDFLARE_API_TOKEN'']"
    using w by (auto simp: main_def fail_def Let_def)
next
  assume "truthy (since args)"
  then have w: "main_window rt (args\<lparr>start := a, end_arg := b\<rparr>) = main_window rt args"
    by (auto simp: main_window_def truthy_def split: option.splits)
  have r: "\<And>s e. main_request rt (args\<lparr>start := a, end_arg := b\<rparr>) s e = main_request rt args s e"
    by (simp add: main_request_def)
  show "main rt (args\<lparr>start := a, end_arg := b\<rparr>) = main rt args"
    by (simp add: main_def w r main_loop_ignores_explicit_times Let_def
          split: sum.splits prod.splits response.splits)
qed

theorem C1_time_arguments_witness:
  "\<not> truthy (since (example_args\<lparr>since := None, start := Some (ustr ''2026-01-27T12:00:00Z'')\<rparr>)) \<and>
   \<not> truthy (end_arg (example_args\<lparr>since := None, start := Some (ustr ''2026-01-27T12:00:00Z'')\<rparr>)) \<and>
   returns (main (example_runtime (Body []))
              (example_args\<lparr>since := None, start := Some (ustr ''2026-01-27T12:00:00Z'')\<rparr>)) = Inr 1 \<and>
   requests (main (example_runtime (Body []))
              (example_args\<lparr>since := None, start := Some (ustr ''2026-01-27T12:00:00Z'')\<rparr>)) = [] \<and>
   stderr (main (example_runtime (Body []))
              (example_args\<lparr>since := None, start := Some (ustr ''2026-01-27T12:00:00Z'')\<rparr>)) =
     [ustr ''Provide --since or both --from/--to''] \<and>
   truthy (since example_args) \<and>
   main (example_runtime (Body []))
     (example_args\<lparr>start := Some (ustr ''2026-01-27T12:00:00Z''),
                    end_arg := Some (ustr ''2026-01-27T13:00:00Z'')\<rparr>) =
   main (example_runtime (Body [])) example_args"
  using C1_time_arguments [of "example_args\<lparr>since := None, start := Some (ustr ''2026-01-27T12:00:00Z'')\<rparr>"
      "example_runtime (Body [])"]
    C1_time_arguments [where args = example_args and rt = "example_runtime (Body [])"
      and a = "Some (ustr ''2026-01-27T12:00:00Z'')" and b = "Some (ustr ''2026-01-27T13:00:00Z'')"]
  by (simp add: text_eval json_eval run_eval main_def)

section \<open>The payload parser\<close>

lemma strip_empty_iff: "strip s = [] \<longleftrightarrow> (\<forall>c\<in>set s. isspace c)"
proof
  assume "strip s = []"
  then have a: "\<forall>c\<in>set (dropWhile isspace s). isspace c"
    by (simp add: strip_def dropWhile_eq_Nil_conv)
  have "dropWhile isspace s = []"
  proof (cases "dropWhile isspace s")
    case Nil
    then show ?thesis .
  next
    case (Cons c cs)
    then have "\<not> isspace c" using hd_dropWhile [of isspace s] by simp
    then show ?thesis using Cons a by simp
  qed
  then show "\<forall>c\<in>set s. isspace c" by (simp add: dropWhile_eq_Nil_conv)
next
  assume "\<forall>c\<in>set s. isspace c"
  then show "strip s = []"
    by (auto simp: strip_def dropWhile_eq_Nil_conv dest: set_dropWhileD)
qed

lemma isspace_no_value_start:
  assumes "isspace c"
  shows "c \<noteq> 0x22 \<and> c \<noteq> 0x7B \<and> c \<noteq> 0x5B \<and> c \<noteq> 0x6E \<and> c \<noteq> 0x74 \<and> c \<noteq> 0x66 \<and>
         c \<noteq> 0x2D \<and> \<not> is_digit c \<and> c \<noteq> 0x4E \<and> c \<noteq> 0x49"
  using assms unfolding isspace_def is_digit_def by presburger

lemma scan_once_isspace:
  assumes "isspace c"
  shows "scan_once pf (c # cs) = None"
  using isspace_no_value_start [OF assms]
  by (simp add: scan_once.simps match_number_def)

lemma loads_not_blank:
  assumes "loads pf s = Some v"
  shows "strip s \<noteq> []"
proof -
  from assms obtain c cs where sk: "skip_ws s = c # cs" and sc: "scan_once pf (c # cs) \<noteq> None"
    by (cases "skip_ws s") (auto simp: loads_def scan_once.simps split: option.splits)
  have "\<not> isspace c" using sc scan_once_isspace [of c pf cs] by auto
  moreover have "c \<in> set s"
    using sk set_dropWhileD [of c json_ws s] by (simp add: skip_ws_def)
  ultimately show ?thesis by (auto simp: strip_empty_iff)
qed

lemma parse_lines_acc:
  "parse_lines rt records lines =
     records @
     concat (map (\<lambda>line.
        case (if strip line = [] then None else loads (float_repr rt) (strip line)) of
          Some (JObject d) \<Rightarrow> [d]
        | _ \<Rightarrow> []) lines)"
  by (induction lines arbitrary: records) (auto split: option.splits json.splits)

text \<open>
  An array is returned from at once, whatever it holds (line 66): for an array without
  mappings the result is empty and the lines are never looked at. The body below is an
  array whose one element is an array; its second line, taken alone, is a mapping, which
  a fallback to the lines would keep.
\<close>

theorem C4_array_without_mappings_counterexample:
  \<open>loads (float_repr (example_runtime (Body [])))
     (ustr ''[['' @ [0x0A] @ ustr ''{"a": 1}'' @ [0x0A] @ ustr '']]'') =
     Some (JArray [JArray [JObject [(ustr ''a'', JInt 1)]]]) \<and>
   parse_records (example_runtime (Body []))
     (ustr ''[['' @ [0x0A] @ ustr ''{"a": 1}'' @ [0x0A] @ ustr '']]'') = [] \<and>
   parse_lines (example_runtime (Body [])) []
     (splitlines (ustr ''[['' @ [0x0A] @ ustr ''{"a": 1}'' @ [0x0A] @ ustr '']]'')) =
     [[(ustr ''a'', JInt 1)]]\<close>
  by (simp add: text_eval json_eval run_eval)

text \<open>
  C4, amended. A body that parses to a value that is neither a list nor a dict (a number,
  a string, \<open>true\<close>, \<open>false\<close>, \<open>null\<close>) is parsed line by line. A body that parses to an array
  is not: the result is the array's mappings, in order. The loop over the lines keeps, in
  order, exactly the lines that are not blank and whose trimmed text parses to a mapping.
\<close>

theorem C4_unsupported_shapes:
  "(loads (float_repr rt) payload = Some v \<and> \<not> is_list v \<and> \<not> is_dict v \<longrightarrow>
      parse_records rt payload = parse_lines rt [] (splitlines payload)) \<and>
   (loads (float_repr rt) payload = Some (JArray data) \<longrightarrow>
      parse_records rt payload = List.map_filter as_dict data) \<and>
   parse_lines rt [] lines =
     concat (map (\<lambda>line.
        case (if strip line = [] then None else loads (float_repr rt) (strip line)) of
          Some (JObject d) \<Rightarrow> [d]
        | _ \<Rightarrow> []) lines)"
proof (intro conjI impI)
  assume h: "loads (float_repr rt) payload = Some v \<and> \<not> is_list v \<and> \<not> is_dict v"
  then have "strip payload \<noteq> []" using loads_not_blank by blast
  then show "parse_records rt payload = parse_lines rt [] (splitlines payload)"
    using h by (cases v) (auto simp: parse_records_def)
next
  assume h: "loads (float_repr rt) payload = Some (JArray data)"
  then have "strip payload \<noteq> []" using loads_not_blank by blast
  then show "parse_records rt payload = List.map_filter as_dict data"
    using h by (simp add: parse_records_def)
next
  show "parse_lines rt [] lines =
     concat (map (\<lambda>line.
        case (if strip line = [] then None else loads (float_repr rt) (strip line)) of
          Some (JObject d) \<Rightarrow> [d]
        | _ \<Rightarrow> []) lines)"
    using parse_lines_acc [of rt "[]" lines] by simp
qed

theorem C4_unsupported_shapes_witness:
  \<open>loads (float_repr (example_runtime (Body []))) (ustr ''42'' @ [0x0A] @ ustr ''{"a": 1}'') = None \<and>
   loads (float_repr (example_runtime (Body []))) (ustr ''"text"'') = Some (JString (ustr ''text'')) \<and>
   parse_records (example_runtime (Body [])) (ustr ''"text"'') =
     parse_lines (example_runtime (Body [])) [] (splitlines (ustr ''"text"'')) \<and>
   parse_records (example_runtime (Body [])) (ustr ''"text"'') = [] \<and>
   loads (float_repr (example_runtime (Body []))) (ustr ''[1, {"a": 1}, "x"]'') =
     Some (JArray [JInt 1, JObject [(ustr ''a'', JInt 1)], JString (ustr ''x'')]) \<and>
   parse_records (example_runtime (Body [])) (ustr ''[1, {"a": 1}, "x"]'') = [[(ustr ''a'', JInt 1)]]\<close>
  using C4_unsupported_shapes [where rt = "example_runtime (Body [])" and payload = "ustr ''\"text\"''"
      and v = "JString (ustr ''text'')"]
    C4_unsupported_shapes [where rt = "example_runtime (Body [])"
      and payload = "ustr ''[1, {\"a\": 1}, \"x\"]''"
      and data = "[JInt 1, JObject [(ustr ''a'', JInt 1)], JString (ustr ''x'')]"]
  by (simp add: text_eval json_eval run_eval)

text \<open>
  C2. The records come out of an array, but not always out of the same records written
  one per line: \<open>splitlines\<close> also breaks a line at U+2028 (and at U+2029, U+0085 and
  others), which JSON allows unescaped inside a string. Each of the two lines below is a
  mapping; as an array they give two records, as lines only the second.
\<close>

theorem C2_ndjson_line_separator:
  \<open>loads (float_repr rt) (ustr ''{"a": "x'' @ [0x2028] @ ustr ''y"}'') =
     Some (JObject [(ustr ''a'', JString (ustr ''x'' @ [0x2028] @ ustr ''y''))]) \<and>
   loads (float_repr rt) (ustr ''{"b": 1}'') = Some (JObject [(ustr ''b'', JInt 1)]) \<and>
   parse_records rt (ustr ''[{"a": "x'' @ [0x2028] @ ustr ''y"}, {"b": 1}]'') =
     [[(ustr ''a'', JString (ustr ''x'' @ [0x2028] @ ustr ''y''))], [(ustr ''b'', JInt 1)]] \<and>
   parse_records rt (ustr ''{"a": "x'' @ [0x2028] @ ustr ''y"}'' @ [0x0A] @ ustr ''{"b": 1}'') =
     [[(ustr ''b'', JInt 1)]]\<close>
  by (simp add: text_eval json_eval parse_records_def as_dict_def List.map_filter_simps)

end
